theory Spec2Isabelle
  imports Complex_Main
begin

section \<open>Python values handled by the workers\<close>

text \<open>
  The workers exchange JSON-like values with the broker and with the remote systems.
  A finite Python float is modelled by the real number it denotes; the three non-finite
  floats are separate constructors.  A string is the list of the bytes of its UTF-8
  encoding.  A dictionary is an association list with string keys, read with
  \<open>map_of\<close>.
\<close>

datatype pyfloat = Fin real | PosInf | NegInf | NaN

datatype pyval =
    PNone
  | PBool bool
  | PInt int
  | PFloat pyfloat
  | PStr string
  | PList "pyval list"
  | PDict "(string \<times> pyval) list"

text \<open>
  Exceptions.  \<open>KeyboardInterrupt\<close> and \<open>SystemExit\<close> derive from
  \<open>BaseException\<close> only, so \<open>except Exception\<close> does not catch them.
  The string is \<open>str(e)\<close>.
\<close>

datatype exn_kind =
    ValueError | TypeError | OverflowError | AttributeError
  | RequestException | DatabaseError | RuntimeError
  | KeyboardInterrupt | SystemExit

datatype exn = Exn exn_kind string

fun kind :: "exn \<Rightarrow> exn_kind" where
  "kind (Exn k m) = k"

fun str_exn :: "exn \<Rightarrow> string" where
  "str_exn (Exn k m) = m"

fun is_Exception_kind :: "exn_kind \<Rightarrow> bool" where
  "is_Exception_kind KeyboardInterrupt = False"
| "is_Exception_kind SystemExit = False"
| "is_Exception_kind k = True"

definition is_Exception :: "exn \<Rightarrow> bool" where
  "is_Exception e = is_Exception_kind (kind e)"

text \<open>Truth value of an object (\<open>if x\<close>, \<open>not x\<close>, \<open>x or y\<close>).\<close>

fun truthy :: "pyval \<Rightarrow> bool" where
  "truthy PNone = False"
| "truthy (PBool b) = b"
| "truthy (PInt i) = (i \<noteq> 0)"
| "truthy (PFloat f) = (f \<noteq> Fin 0)"
| "truthy (PStr s) = (s \<noteq> [])"
| "truthy (PList xs) = (xs \<noteq> [])"
| "truthy (PDict d) = (d \<noteq> [])"

definition py_or :: "pyval \<Rightarrow> pyval \<Rightarrow> pyval" where
  "py_or a b = (if truthy a then a else b)"

fun type_name :: "pyval \<Rightarrow> string" where
  "type_name PNone = ''NoneType''"
| "type_name (PBool b) = ''bool''"
| "type_name (PInt i) = ''int''"
| "type_name (PFloat f) = ''float''"
| "type_name (PStr s) = ''str''"
| "type_name (PList xs) = ''list''"
| "type_name (PDict d) = ''dict''"

definition quoted :: "string \<Rightarrow> string" where
  "quoted s = CHR 0x27 # s @ [CHR 0x27]"

definition no_attribute :: "pyval \<Rightarrow> string \<Rightarrow> exn" where
  "no_attribute v a =
     Exn AttributeError (quoted (type_name v) @ '' object has no attribute '' @ quoted a)"

text \<open>\<open>obj.get(key, default)\<close>: only a dict has the method.\<close>

fun py_get :: "pyval \<Rightarrow> string \<Rightarrow> pyval \<Rightarrow> exn + pyval" where
  "py_get (PDict d) k dflt = Inr (case map_of d k of Some v \<Rightarrow> v | None \<Rightarrow> dflt)"
| "py_get v k dflt = Inl (no_attribute v ''get'')"

subsection \<open>Strings\<close>

text \<open>
  A string is the list of the bytes of its UTF-8 encoding, so an ASCII character is one
  element and any other code point is two to four.

  \<open>str.upper\<close> works code point by code point.  The seventeen code points outside ASCII
  whose upper-case form has an ASCII character are listed with that form; with the ASCII
  letters they are the only code points from which \<open>upper\<close> makes an ASCII character.
  Every other code point is left as it is, where Python may put other code points, none
  of them ASCII.  So \<open>upper s\<close> consists of ASCII characters exactly when \<open>s.upper()\<close>
  does, and then the two are equal: a comparison with an ASCII word has the outcome it
  has in Python.
\<close>

definition upper_char :: "char \<Rightarrow> char" where
  "upper_char c =
     (case map_of (zip ''abcdefghijklmnopqrstuvwxyz'' ''ABCDEFGHIJKLMNOPQRSTUVWXYZ'') c of
        Some u \<Rightarrow> u
      | None \<Rightarrow> c)"

definition maiusculas_especiais :: "(string \<times> string) list" where
  "maiusculas_especiais =
     [([CHR 0xC3, CHR 0x9F], ''SS''),
      ([CHR 0xC4, CHR 0xB1], ''I''),
      ([CHR 0xC5, CHR 0x89], [CHR 0xCA, CHR 0xBC, CHR 0x4E]),
      ([CHR 0xC5, CHR 0xBF], ''S''),
      ([CHR 0xC7, CHR 0xB0], [CHR 0x4A, CHR 0xCC, CHR 0x8C]),
      ([CHR 0xE1, CHR 0xBA, CHR 0x96], [CHR 0x48, CHR 0xCC, CHR 0xB1]),
      ([CHR 0xE1, CHR 0xBA, CHR 0x97], [CHR 0x54, CHR 0xCC, CHR 0x88]),
      ([CHR 0xE1, CHR 0xBA, CHR 0x98], [CHR 0x57, CHR 0xCC, CHR 0x8A]),
      ([CHR 0xE1, CHR 0xBA, CHR 0x99], [CHR 0x59, CHR 0xCC, CHR 0x8A]),
      ([CHR 0xE1, CHR 0xBA, CHR 0x9A], [CHR 0x41, CHR 0xCA, CHR 0xBE]),
      ([CHR 0xEF, CHR 0xAC, CHR 0x80], ''FF''),
      ([CHR 0xEF, CHR 0xAC, CHR 0x81], ''FI''),
      ([CHR 0xEF, CHR 0xAC, CHR 0x82], ''FL''),
      ([CHR 0xEF, CHR 0xAC, CHR 0x83], ''FFI''),
      ([CHR 0xEF, CHR 0xAC, CHR 0x84], ''FFL''),
      ([CHR 0xEF, CHR 0xAC, CHR 0x85], ''ST''),
      ([CHR 0xEF, CHR 0xAC, CHR 0x86], ''ST'')]"

fun comeca_com :: "string \<Rightarrow> string \<Rightarrow> bool" where
  "comeca_com [] s = True"
| "comeca_com (p # ps) [] = False"
| "comeca_com (p # ps) (c # cs) = (p = c \<and> comeca_com ps cs)"

text \<open>The first argument counts the bytes still to skip of a code point already replaced.\<close>

fun upper_de :: "nat \<Rightarrow> string \<Rightarrow> string" where
  "upper_de k [] = []"
| "upper_de (Suc k) (c # cs) = upper_de k cs"
| "upper_de 0 (c # cs) =
     (case find (\<lambda>(p, u). comeca_com p (c # cs)) maiusculas_especiais of
        Some (p, u) \<Rightarrow> u @ upper_de (length p - 1) cs
      | None \<Rightarrow> upper_char c # upper_de 0 cs)"

definition upper :: "string \<Rightarrow> string" where
  "upper s = upper_de 0 s"

text \<open>
  The white space of \<open>str.strip\<close> and of \<open>int\<close>: the code points for which
  \<open>str.isspace\<close> holds, U+0009 to U+000D, U+001C to U+0020, U+0085, U+00A0, U+1680,
  U+2000 to U+200A, U+2028, U+2029, U+202F, U+205F and U+3000.
\<close>

definition espacos :: "string list" where
  "espacos =
     [[CHR 0x09],
      [CHR 0x0A],
      [CHR 0x0B],
      [CHR 0x0C],
      [CHR 0x0D],
      [CHR 0x1C],
      [CHR 0x1D],
      [CHR 0x1E],
      [CHR 0x1F],
      [CHR 0x20],
      [CHR 0xC2, CHR 0x85],
      [CHR 0xC2, CHR 0xA0],
      [CHR 0xE1, CHR 0x9A, CHR 0x80],
      [CHR 0xE2, CHR 0x80, CHR 0x80],
      [CHR 0xE2, CHR 0x80, CHR 0x81],
      [CHR 0xE2, CHR 0x80, CHR 0x82],
      [CHR 0xE2, CHR 0x80, CHR 0x83],
      [CHR 0xE2, CHR 0x80, CHR 0x84],
      [CHR 0xE2, CHR 0x80, CHR 0x85],
      [CHR 0xE2, CHR 0x80, CHR 0x86],
      [CHR 0xE2, CHR 0x80, CHR 0x87],
      [CHR 0xE2, CHR 0x80, CHR 0x88],
      [CHR 0xE2, CHR 0x80, CHR 0x89],
      [CHR 0xE2, CHR 0x80, CHR 0x8A],
      [CHR 0xE2, CHR 0x80, CHR 0xA8],
      [CHR 0xE2, CHR 0x80, CHR 0xA9],
      [CHR 0xE2, CHR 0x80, CHR 0xAF],
      [CHR 0xE2, CHR 0x81, CHR 0x9F],
      [CHR 0xE3, CHR 0x80, CHR 0x80]]"

text \<open>Dropping the leading code points that are in a list; the counter is as above.\<close>

fun tirar_inicio :: "string list \<Rightarrow> nat \<Rightarrow> string \<Rightarrow> string" where
  "tirar_inicio ws k [] = []"
| "tirar_inicio ws (Suc k) (c # cs) = tirar_inicio ws k cs"
| "tirar_inicio ws 0 (c # cs) =
     (case find (\<lambda>p. comeca_com p (c # cs)) ws of
        Some p \<Rightarrow> tirar_inicio ws (length p - 1) cs
      | None \<Rightarrow> c # cs)"

text \<open>
  At the end of a string the bytes of a code point are read backwards; in UTF-8 the bytes
  that end a string and spell a code point are that code point.
\<close>

definition strip :: "string \<Rightarrow> string" where
  "strip s = rev (tirar_inicio (map rev espacos) 0 (rev (tirar_inicio espacos 0 s)))"

definition ascii :: "string \<Rightarrow> bool" where
  "ascii s = list_all (\<lambda>c. (of_char c :: nat) < 128) s"

text \<open>
  The text of \<open>repr\<close> of a string of printable ASCII characters with no quote and no
  backslash is the string between single quotes; of any other string it is the
  parameter \<open>repr\<close>.
\<close>

definition simples :: "string \<Rightarrow> bool" where
  "simples s =
     list_all (\<lambda>c. let n = (of_char c :: nat) in 32 \<le> n \<and> n < 127 \<and> n \<noteq> 39 \<and> n \<noteq> 92) s"

fun py_upper :: "pyval \<Rightarrow> exn + string" where
  "py_upper (PStr s) = Inr (upper s)"
| "py_upper v = Inl (no_attribute v ''upper'')"

subsection \<open>Integers and their decimal text\<close>

definition digit_char :: "nat \<Rightarrow> char" where
  "digit_char d = ''0123456789'' ! d"

fun str_nat :: "nat \<Rightarrow> string" where
  "str_nat n = (if n < 10 then [digit_char n] else str_nat (n div 10) @ [digit_char (n mod 10)])"

declare str_nat.simps [simp del]

definition str_int :: "int \<Rightarrow> string" where
  "str_int i = (if i < 0 then CHR ''-'' # str_nat (nat (- i)) else str_nat (nat i))"

definition is_digit :: "char \<Rightarrow> bool" where
  "is_digit c = (let n = (of_char c :: nat) in 48 \<le> n \<and> n \<le> 57)"

definition digit_val :: "char \<Rightarrow> int" where
  "digit_val c = int (of_char c) - 48"

text \<open>
  The digits of a decimal literal of ASCII characters as \<open>int(str)\<close> accepts them:
  one or more digits, single underscores allowed between digits only.  The accumulator is the value so far;
  the flag says whether the previous character was a digit.
\<close>

fun parse_digits :: "int \<Rightarrow> bool \<Rightarrow> string \<Rightarrow> int option" where
  "parse_digits acc prev [] = (if prev then Some acc else None)"
| "parse_digits acc prev (c # cs) =
     (if is_digit c then parse_digits (10 * acc + digit_val c) True cs
      else if c = CHR ''_'' \<and> prev then parse_digits acc False cs
      else None)"

text \<open>
  Around the digits of an ASCII string \<open>int\<close> drops the white space of C, U+0009 to
  U+000D and U+0020, and not the separators U+001C to U+001F that \<open>strip\<close> drops.
\<close>

definition espacos_c :: "string list" where
  "espacos_c = [[CHR 0x09], [CHR 0x0A], [CHR 0x0B], [CHR 0x0C], [CHR 0x0D], [CHR 0x20]]"

definition strip_c :: "string \<Rightarrow> string" where
  "strip_c s = rev (tirar_inicio espacos_c 0 (rev (tirar_inicio espacos_c 0 s)))"

definition parse_int :: "string \<Rightarrow> int option" where
  "parse_int s =
     (case strip_c s of
        [] \<Rightarrow> None
      | c # cs \<Rightarrow>
          if c = CHR ''-'' then map_option uminus (parse_digits 0 False cs)
          else if c = CHR ''+'' then parse_digits 0 False cs
          else parse_digits 0 False (c # cs))"

text \<open>Truncation toward zero, as \<open>int(float)\<close> does.\<close>

definition trunc :: "real \<Rightarrow> int" where
  "trunc x = (if 0 \<le> x then \<lfloor>x\<rfloor> else \<lceil>x\<rceil>)"

fun int_of_float :: "pyfloat \<Rightarrow> exn + int" where
  "int_of_float (Fin x) = Inr (trunc x)"
| "int_of_float NaN = Inl (Exn ValueError ''cannot convert float NaN to integer'')"
| "int_of_float f = Inl (Exn OverflowError ''cannot convert float infinity to integer'')"

definition int_type_error :: "pyval \<Rightarrow> exn" where
  "int_type_error v =
     Exn TypeError (''int() argument must be a string, a bytes-like object or a real number, not ''
                    @ quoted (type_name v))"

text \<open>
  The built-in \<open>int(x)\<close>.  For a string it also accepts the decimal digits of every
  script that the Unicode tables of the interpreter know; the outcome on a string with a
  code point outside ASCII is therefore the parameter \<open>int_u\<close>.  An integer has no
  bound, and the interpreter is taken to set no limit on the number of its digits.
\<close>

definition invalid_literal :: "(pyval \<Rightarrow> string) \<Rightarrow> string \<Rightarrow> exn" where
  "invalid_literal repr s =
     Exn ValueError (''invalid literal for int() with base 10: ''
                     @ (if simples s then quoted s else repr (PStr s)))"

fun py_int :: "(pyval \<Rightarrow> string) \<Rightarrow> (string \<Rightarrow> exn + int) \<Rightarrow> pyval \<Rightarrow> exn + int" where
  "py_int repr int_u (PInt i) = Inr i"
| "py_int repr int_u (PBool b) = Inr (if b then 1 else 0)"
| "py_int repr int_u (PFloat f) = int_of_float f"
| "py_int repr int_u (PStr s) =
     (if ascii s then
        (case parse_int s of
           Some i \<Rightarrow> Inr i
         | None \<Rightarrow> Inl (invalid_literal repr s))
      else int_u s)"
| "py_int repr int_u v = Inl (int_type_error v)"

text \<open>
  The built-in \<open>str(x)\<close>.  The text of a float and of a container (their \<open>repr\<close>) is
  not computed here: it is the parameter \<open>repr\<close>.
\<close>

fun py_str :: "(pyval \<Rightarrow> string) \<Rightarrow> pyval \<Rightarrow> string" where
  "py_str repr PNone = ''None''"
| "py_str repr (PBool b) = (if b then ''True'' else ''False'')"
| "py_str repr (PInt i) = str_int i"
| "py_str repr (PStr s) = s"
| "py_str repr v = repr v"

definition dict_get :: "(string \<times> pyval) list \<Rightarrow> string \<Rightarrow> pyval \<Rightarrow> pyval" where
  "dict_get d k dflt = (case map_of d k of Some v \<Rightarrow> v | None \<Rightarrow> dflt)"

section \<open>The broker's task and its result\<close>

text \<open>
  \<open>ExternalTask\<close> and \<open>TaskResult\<close> belong to the Camunda client library.  A task is
  its identifier and the variables of \<open>get_variables()\<close>; a result is what
  \<open>TaskResult.success(task, variables)\<close> or \<open>TaskResult.failure(task, error_message,
  error_details, retries, retry_timeout)\<close> was given.
\<close>

record ExternalTask =
  task_id :: string
  variables :: "(string \<times> pyval) list"

datatype TaskResult =
    Success ExternalTask "(string \<times> pyval) list"
  | Failure ExternalTask string string int int

section \<open>IBM RPA worker (worker\_ibm\_rpa\_autorizacao.py)\<close>

text \<open>Of \<open>IBMRPAConfig\<close>, the fields that the control flow reads.\<close>

record IBMRPAConfig =
  process_id :: string
  timeout_seconds :: int
  poll_interval_seconds :: int

text \<open>
  What the worker cannot decide: the outcome of \<open>iniciar_processo\<close>, the outcome of the
  k-th call of \<open>consultar_status_instancia\<close> and the time that call takes, the clock at
  the entry of the poller, the text of \<open>datetime.now().isoformat()\<close>, \<open>repr\<close>, and
  \<open>int\<close> on a string that is not ASCII.
\<close>

record rpa_env =
  iniciar :: "string \<Rightarrow> pyval \<Rightarrow> exn + pyval"
  consultar :: "nat \<Rightarrow> exn + pyval"
  latencia :: "nat \<Rightarrow> real"
  agora0 :: real
  data_execucao :: string
  repr_of :: "pyval \<Rightarrow> string"
  int_unicode :: "string \<Rightarrow> exn + int"

datatype nivel = Info | Warning | Error

datatype evento = Consulta real | Dormiu int | Log nivel

text \<open>
  The state of one run of the poller: the clock, the polls issued, and what it did
  (\<open>Consulta t\<close>: a status poll issued when the clock read \<open>t\<close>).
\<close>

record pstate =
  now :: real
  polls :: nat
  trace :: "evento list"

definition registrar :: "nivel \<Rightarrow> pstate \<Rightarrow> pstate" where
  "registrar n s = s\<lparr>trace := trace s @ [Log n]\<rparr>"

text \<open>\<open>time.sleep(d)\<close> raises \<open>ValueError\<close> on a negative length.\<close>

definition sleep :: "int \<Rightarrow> pstate \<Rightarrow> exn + pstate" where
  "sleep d s =
     (if d < 0 then Inl (Exn ValueError ''sleep length must be non-negative'')
      else Inr (s\<lparr>now := now s + real_of_int d, trace := trace s @ [Dormiu d]\<rparr>))"

text \<open>\<open>consultar_status_instancia\<close>: one network call, which takes its time.\<close>

definition consultar_status_instancia :: "rpa_env \<Rightarrow> pstate \<Rightarrow> (exn + pyval) \<times> pstate" where
  "consultar_status_instancia env s =
     (consultar env (polls s),
      s\<lparr>now := now s + latencia env (polls s), polls := Suc (polls s),
        trace := trace s @ [Consulta (now s)]\<rparr>)"

text \<open>The branch taken on the upper-cased status (lines 235 to 254).\<close>

datatype classe_status = Concluido | Falhou | EmExecucao | Desconhecido

definition classificar :: "string \<Rightarrow> classe_status" where
  "classificar status =
     (if status \<in> set [''DONE'', ''COMPLETED''] then Concluido
      else if status \<in> set [''FAILED'', ''CANCELED'', ''ERROR''] then Falhou
      else if status \<in> set [''NEW'', ''QUEUED'', ''PROCESSING'', ''RUNNING'', ''PENDING''] then EmExecucao
      else Desconhecido)"

type_synonym resultado_rpa = "string \<times> string \<times> pyval"

datatype passo = Retorna resultado_rpa | Levanta exn | Continua

definition msg_concluido :: string where
  "msg_concluido = ''Processo conclu'' @ [CHR 0xC3, CHR 0xAD] @ ''do com sucesso''"

definition msg_timeout :: "int \<Rightarrow> string" where
  "msg_timeout tempo_maximo =
     ''Timeout ap'' @ [CHR 0xC3, CHR 0xB3] @ ''s '' @ str_int tempo_maximo @ ''s''"

text \<open>
  The body of the \<open>try\<close> in \<open>aguardar_conclusao\<close> with its \<open>except
  requests.RequestException\<close> (lines 220 to 258): one status poll and what follows it.
\<close>

definition tentativa :: "IBMRPAConfig \<Rightarrow> rpa_env \<Rightarrow> pstate \<Rightarrow> passo \<times> pstate" where
  "tentativa cfg env s =
     (case consultar_status_instancia env s of
        (Inl e, s1) \<Rightarrow>
          if kind e = RequestException then
            (let s2 = registrar Error s1 in
             case sleep (poll_interval_seconds cfg) s2 of
               Inl e' \<Rightarrow> (Levanta e', s2)
             | Inr s3 \<Rightarrow> (Continua, s3))
          else (Levanta e, s1)
      | (Inr data, s1) \<Rightarrow>
          (case data of
             PDict d \<Rightarrow>
               (case py_upper (dict_get d ''status'' (PStr [])) of
                  Inl e \<Rightarrow> (Levanta e, s1)
                | Inr status \<Rightarrow>
                    (let s2 = registrar Info s1 in
                     case classificar status of
                       Concluido \<Rightarrow>
                         (let outputs = py_or (dict_get d ''outputs'' (PDict []))
                                              (dict_get d ''output'' (PDict []));
                              vars = dict_get d ''variables'' (PList [])
                          in (Retorna (''SUCESSO'', msg_concluido,
                                       PDict [(''outputs'', outputs), (''variables'', vars)]),
                              registrar Info s2))
                     | Falhou \<Rightarrow>
                         (let error_msg = py_or (dict_get d ''errorMessage'' PNone)
                                            (py_or (dict_get d ''error'' PNone)
                                                   (PStr ''Erro desconhecido''))
                          in (Retorna (''ERRO'', ''Processo falhou: '' @ py_str (repr_of env) error_msg,
                                       data),
                              s2))
                     | EmExecucao \<Rightarrow>
                         (case sleep (poll_interval_seconds cfg) s2 of
                            Inl e' \<Rightarrow> (Levanta e', s2)
                          | Inr s3 \<Rightarrow> (Continua, s3))
                     | Desconhecido \<Rightarrow>
                         (let s3 = registrar Warning s2 in
                          case sleep (poll_interval_seconds cfg) s3 of
                            Inl e' \<Rightarrow> (Levanta e', s3)
                          | Inr s4 \<Rightarrow> (Continua, s4))))
           | _ \<Rightarrow> (Levanta (no_attribute data ''get''), s1)))"

text \<open>
  The \<open>while True\<close> loop of \<open>aguardar_conclusao\<close> (lines 213 to 258).  The loop may
  not return, so the result is an option.
\<close>

partial_function (option) aguardar_loop ::
  "IBMRPAConfig \<Rightarrow> rpa_env \<Rightarrow> real \<Rightarrow> pstate \<Rightarrow> ((exn + resultado_rpa) \<times> pstate) option"
where
  "aguardar_loop cfg env tempo_inicio s =
     (let tempo_decorrido = now s - tempo_inicio;
          tempo_maximo = timeout_seconds cfg
      in if tempo_decorrido \<ge> real_of_int tempo_maximo then
           Some (Inr (''TIMEOUT'', msg_timeout tempo_maximo, PNone), registrar Warning s)
         else
           (case tentativa cfg env s of
              (Retorna r, s') \<Rightarrow> Some (Inr r, s')
            | (Levanta e, s') \<Rightarrow> Some (Inl e, s')
            | (Continua, s') \<Rightarrow> aguardar_loop cfg env tempo_inicio s'))"

definition aguardar_conclusao ::
  "IBMRPAConfig \<Rightarrow> rpa_env \<Rightarrow> pstate \<Rightarrow> ((exn + resultado_rpa) \<times> pstate) option" where
  "aguardar_conclusao cfg env s = aguardar_loop cfg env (now s) (registrar Info s)"

subsection \<open>The handler: output variables of the robot\<close>

record saida =
  numero_autorizacao :: pyval
  status_autorizacao :: pyval
  nr_guia_requisicao :: pyval

definition aliases_numero :: "string list" where
  "aliases_numero = [''numero_autorizacao'', ''numeroAutorizacao'', ''nr_autorizacao'']"

definition aliases_status :: "string list" where
  "aliases_status = [''status_autorizacao'', ''statusAutorizacao'']"

definition aliases_guia :: "string list" where
  "aliases_guia = [''nr_guia_requisicao'', ''nrGuiaRequisicao'', ''guia_requisicao'']"

text \<open>\<open>outputs.get(a1) or outputs.get(a2) or ...\<close>, the last operand as it is.\<close>

fun primeiro_valor :: "(string \<times> pyval) list \<Rightarrow> string list \<Rightarrow> pyval" where
  "primeiro_valor d [] = PNone"
| "primeiro_valor d [a] = dict_get d a PNone"
| "primeiro_valor d (a # as) = py_or (dict_get d a PNone) (primeiro_valor d as)"

text \<open>
  Lines 373 to 378 and 398 to 401: a float becomes the text of its integer part, any
  other value that is not \<open>None\<close> its \<open>str\<close>.
\<close>

definition texto_guia :: "(pyval \<Rightarrow> string) \<Rightarrow> pyval \<Rightarrow> exn + pyval" where
  "texto_guia repr raw =
     (case raw of
        PNone \<Rightarrow> Inr PNone
      | PFloat f \<Rightarrow> (case int_of_float f of Inl e \<Rightarrow> Inl e | Inr i \<Rightarrow> Inr (PStr (str_int i)))
      | _ \<Rightarrow> Inr (PStr (py_str repr raw)))"

text \<open>
  The loop over \<open>variables\<close>, a list of dicts with \<open>name\<close> and \<open>value\<close>
  (lines 389 to 401): its body, then the loop.
\<close>

definition examinar_variavel :: "(pyval \<Rightarrow> string) \<Rightarrow> pyval \<Rightarrow> saida \<Rightarrow> exn + saida" where
  "examinar_variavel repr var sd =
     (case py_get var ''name'' (PStr []) of
        Inl e \<Rightarrow> Inl e
      | Inr var_name \<Rightarrow>
          (case py_get var ''value'' PNone of
             Inl e \<Rightarrow> Inl e
           | Inr var_value \<Rightarrow>
               if var_name \<in> PStr ` set aliases_numero \<and> \<not> truthy (numero_autorizacao sd) then
                 Inr (sd\<lparr>numero_autorizacao := var_value\<rparr>)
               else if var_name \<in> PStr ` set aliases_status \<and> \<not> truthy (status_autorizacao sd) then
                 Inr (sd\<lparr>status_autorizacao := var_value\<rparr>)
               else if var_name \<in> PStr ` set aliases_guia \<and> \<not> truthy (nr_guia_requisicao sd) then
                 (case texto_guia repr var_value of
                    Inl e \<Rightarrow> Inl e
                  | Inr g \<Rightarrow> Inr (if g = PNone then sd else sd\<lparr>nr_guia_requisicao := g\<rparr>))
               else Inr sd))"

fun percorrer_variables :: "(pyval \<Rightarrow> string) \<Rightarrow> pyval list \<Rightarrow> saida \<Rightarrow> exn + saida" where
  "percorrer_variables repr [] sd = Inr sd"
| "percorrer_variables repr (var # vars) sd =
     (case examinar_variavel repr var sd of
        Inl e \<Rightarrow> Inl e
      | Inr sd' \<Rightarrow> percorrer_variables repr vars sd')"

text \<open>Step 3 of the handler (lines 348 to 401), applied to what the poller returned.\<close>

definition extrair_saida :: "(pyval \<Rightarrow> string) \<Rightarrow> pyval \<Rightarrow> exn + saida" where
  "extrair_saida repr rpa_output =
     (let nada = \<lparr>numero_autorizacao = PNone, status_autorizacao = PNone,
                  nr_guia_requisicao = PNone\<rparr>
      in case rpa_output of
           PDict ro \<Rightarrow>
             if ro = [] then Inr nada
             else
               (let outputs = dict_get ro ''outputs'' (PDict []);
                    vars = dict_get ro ''variables'' (PList [])
                in case outputs of
                     PDict od \<Rightarrow>
                       (case texto_guia repr (primeiro_valor od aliases_guia) of
                          Inl e \<Rightarrow> Inl e
                        | Inr guia \<Rightarrow>
                            (let sd = \<lparr>numero_autorizacao = primeiro_valor od aliases_numero,
                                       status_autorizacao = primeiro_valor od aliases_status,
                                       nr_guia_requisicao = guia\<rparr>
                             in case vars of
                                  PList vs \<Rightarrow> percorrer_variables repr vs sd
                                | _ \<Rightarrow> Inr sd))
                   | _ \<Rightarrow> Inl (no_attribute outputs ''get''))
         | _ \<Rightarrow> Inr nada)"

subsection \<open>The handler\<close>

text \<open>\<open>int(x) if x else 0\<close>.\<close>

definition int_ou_zero :: "(pyval \<Rightarrow> string) \<Rightarrow> (string \<Rightarrow> exn + int) \<Rightarrow> pyval \<Rightarrow> exn + int" where
  "int_ou_zero repr int_u v = (if truthy v then py_int repr int_u v else Inr 0)"

text \<open>Lines 297 to 303 and 321 to 327: the payload sent to the robot, built before the \<open>try\<close>.\<close>

definition montar_payload ::
  "(pyval \<Rightarrow> string) \<Rightarrow> (string \<Rightarrow> exn + int) \<Rightarrow> (string \<times> pyval) list \<Rightarrow> exn + pyval" where
  "montar_payload repr int_u vs =
     (let paciente_nome = dict_get vs ''paciente_nome'' (PStr []);
          convenio_codigo = dict_get vs ''convenio_codigo'' PNone;
          procedimento_codigo = dict_get vs ''procedimento_codigo'' PNone;
          medico_crm = dict_get vs ''medico_crm'' PNone;
          guia_solicitacao = dict_get vs ''guia_solicitacao'' PNone
      in case int_ou_zero repr int_u convenio_codigo of Inl e \<Rightarrow> Inl e | Inr c \<Rightarrow>
         (case int_ou_zero repr int_u procedimento_codigo of Inl e \<Rightarrow> Inl e | Inr p \<Rightarrow>
         (case int_ou_zero repr int_u medico_crm of Inl e \<Rightarrow> Inl e | Inr m \<Rightarrow>
         (case int_ou_zero repr int_u guia_solicitacao of Inl e \<Rightarrow> Inl e | Inr g \<Rightarrow>
            Inr (PDict [(''paciente_nome'', py_or paciente_nome (PStr [])),
                        (''convenio_codigo'', PInt c),
                        (''procedimento_codigo'', PInt p),
                        (''medico_crm'', PInt m),
                        (''guia_solicitacao'', PInt g)])))))"

text \<open>The \<open>except Exception\<close> of the handler (lines 423 to 438).\<close>

definition tratar_excecao :: "rpa_env \<Rightarrow> ExternalTask \<Rightarrow> exn \<Rightarrow> exn + TaskResult" where
  "tratar_excecao env task e =
     (if is_Exception e then
        Inr (Success task
          [(''rpa_status'', PStr ''ERRO''),
           (''rpa_instance_id'', PNone),
           (''rpa_mensagem'', PStr (''Erro t'' @ [CHR 0xC3, CHR 0xA9] @ ''cnico: '' @ str_exn e)),
           (''rpa_data_execucao'', PStr (data_execucao env)),
           (''numero_autorizacao'', PNone),
           (''status_autorizacao'', PNone),
           (''nr_guia_requisicao'', PNone)])
      else Inl e)"

text \<open>Steps 3 and 4 inside the \<open>try\<close> (lines 345 to 421), once the poller has returned.\<close>

definition concluir ::
  "rpa_env \<Rightarrow> ExternalTask \<Rightarrow> pyval \<Rightarrow> resultado_rpa \<Rightarrow> exn + TaskResult" where
  "concluir env task instance_id r =
     (case r of (rpa_status, rpa_mensagem, rpa_output) \<Rightarrow>
        (case extrair_saida (repr_of env) rpa_output of
           Inl e \<Rightarrow> tratar_excecao env task e
         | Inr sd \<Rightarrow>
             Inr (Success task
               [(''rpa_status'', PStr rpa_status),
                (''rpa_instance_id'', instance_id),
                (''rpa_mensagem'', PStr rpa_mensagem),
                (''rpa_data_execucao'', PStr (data_execucao env)),
                (''numero_autorizacao'', numero_autorizacao sd),
                (''status_autorizacao'', status_autorizacao sd),
                (''nr_guia_requisicao'', nr_guia_requisicao sd)])))"

definition falha_configuracao :: "ExternalTask \<Rightarrow> TaskResult" where
  "falha_configuracao task =
     Failure task
       (''Processo IBM RPA n'' @ [CHR 0xC3, CHR 0xA3] @ ''o configurado'')
       (''A vari'' @ [CHR 0xC3, CHR 0xA1] @ ''vel IBM_RPA_PROCESS_ID n'' @ [CHR 0xC3, CHR 0xA3]
          @ ''o est'' @ [CHR 0xC3, CHR 0xA1] @ '' definida no .env'')
       0 5000"

text \<open>
  \<open>handle_executar_rpa\<close>.  \<open>None\<close>: the poller never returns; \<open>Some (Inl e)\<close>: the
  exception \<open>e\<close> leaves the handler; \<open>Some (Inr r)\<close>: the handler returns \<open>r\<close>.
\<close>

definition handle_executar_rpa ::
  "IBMRPAConfig \<Rightarrow> rpa_env \<Rightarrow> ExternalTask \<Rightarrow> (exn + TaskResult) option" where
  "handle_executar_rpa cfg env task =
     (if process_id cfg = [] then Some (Inr (falha_configuracao task))
      else
        (case montar_payload (repr_of env) (int_unicode env) (variables task) of
           Inl e \<Rightarrow> Some (Inl e)
         | Inr rpa_payload \<Rightarrow>
             (case iniciar env (process_id cfg) rpa_payload of
                Inl e \<Rightarrow> Some (tratar_excecao env task e)
              | Inr instance_id \<Rightarrow>
                  (case aguardar_conclusao cfg env \<lparr>now = agora0 env, polls = 0, trace = []\<rparr> of
                     None \<Rightarrow> None
                   | Some (Inl e, s) \<Rightarrow> Some (tratar_excecao env task e)
                   | Some (Inr r, s) \<Rightarrow> Some (concluir env task instance_id r)))))"

section \<open>Oracle worker (worker\_oracle\_autorizacao.py)\<close>

text \<open>\<open>STATUS_PARA_ESTAGIO\<close> (lines 73 to 86).\<close>

definition STATUS_PARA_ESTAGIO :: "(string \<times> int) list" where
  "STATUS_PARA_ESTAGIO =
     [(''Autorizado'', 2), (''AUTORIZADO'', 2), (''Aprovado'', 2), (''APROVADO'', 2),
      (''Analise'', 6), (''ANALISE'', 6),
      (''Auditoria'', 29), (''AUDITORIA'', 29),
      (''Negado'', 7), (''NEGADO'', 7), (''Recusado'', 7), (''RECUSADO'', 7)]"

text \<open>\<open>obter_estagio_por_status\<close>; only a string has \<open>strip\<close>.\<close>

definition obter_estagio_por_status :: "pyval \<Rightarrow> exn + int" where
  "obter_estagio_por_status status_rpa =
     (if \<not> truthy status_rpa then Inr 6
      else case status_rpa of
             PStr s \<Rightarrow> Inr (case map_of STATUS_PARA_ESTAGIO (strip s) of Some n \<Rightarrow> n | None \<Rightarrow> 6)
           | _ \<Rightarrow> Inl (no_attribute status_rpa ''strip''))"

subsection \<open>The repository and the database driver\<close>

text \<open>
  The driver is outside the repository: the k-th call made to it (connect, cursor,
  execute, commit, rollback or close) either succeeds or raises, as \<open>db_env\<close> says of
  that call.  The state of a repository is its \<open>_connection\<close> field, and with it the
  connections that are open on the database and the calls made so far.
\<close>

datatype db_op = Connect | Cursor | Execute | Commit | Rollback | Close

type_synonym db_env = "nat \<Rightarrow> db_op \<Rightarrow> exn option"

record repo =
  connection :: "nat option"
  chamadas :: nat
  abertas :: "nat list"
  historico :: "db_op list"

definition chamar :: "db_env \<Rightarrow> db_op \<Rightarrow> repo \<Rightarrow> exn option \<times> repo" where
  "chamar env op r =
     (env (chamadas r) op, r\<lparr>chamadas := Suc (chamadas r), historico := historico r @ [op]\<rparr>)"

text \<open>\<open>_get_connection\<close> (lines 120 to 133).\<close>

definition get_connection :: "db_env \<Rightarrow> repo \<Rightarrow> exn option \<times> repo" where
  "get_connection env r =
     (case connection r of
        None \<Rightarrow>
          (case chamar env Connect r of
             (Some e, r1) \<Rightarrow> (Some e, r1)
           | (None, r1) \<Rightarrow>
               (None, r1\<lparr>connection := Some (chamadas r), abertas := chamadas r # abertas r1\<rparr>))
      | Some c \<Rightarrow> (None, r))"

text \<open>
  \<open>close\<close> (lines 275 to 279).  A close that succeeds releases the connection; when
  the driver raises instead, the connection stays open and line 279 is not reached.
\<close>

definition close :: "db_env \<Rightarrow> repo \<Rightarrow> exn option \<times> repo" where
  "close env r =
     (case connection r of
        Some c \<Rightarrow>
          (case chamar env Close r of
             (Some e, r1) \<Rightarrow> (Some e, r1)
           | (None, r1) \<Rightarrow> (None, r1\<lparr>connection := None, abertas := removeAll c (abertas r1)\<rparr>))
      | None \<Rightarrow> (None, r))"

record resultado_proc =
  proc_status :: string
  proc_mensagem :: string
  proc_estagio :: pyval

text \<open>The \<open>except Exception\<close> shared by the two methods: roll back when connected.\<close>

definition desfazer :: "db_env \<Rightarrow> repo \<Rightarrow> exn option \<times> repo" where
  "desfazer env r = (if connection r \<noteq> None then chamar env Rollback r else (None, r))"

definition tratar_erro_proc ::
  "db_env \<Rightarrow> exn \<Rightarrow> repo \<Rightarrow> (exn + resultado_proc) \<times> repo" where
  "tratar_erro_proc env e r =
     (if is_Exception e then
        (case desfazer env r of
           (Some e', r') \<Rightarrow> (Inl e', r')
         | (None, r') \<Rightarrow>
             (Inr \<lparr>proc_status = ''ERRO'', proc_mensagem = str_exn e, proc_estagio = PNone\<rparr>, r'))
      else (Inl e, r))"

text \<open>The calls of the \<open>try\<close> of \<open>atualizar_autorizacao_guia\<close> (lines 166 to 192).\<close>

definition chamadas_guia :: "db_env \<Rightarrow> repo \<Rightarrow> exn option \<times> repo" where
  "chamadas_guia env r =
     (case get_connection env r of
        (Some e, r1) \<Rightarrow> (Some e, r1)
      | (None, r1) \<Rightarrow>
          (case chamar env Cursor r1 of
             (Some e, r2) \<Rightarrow> (Some e, r2)
           | (None, r2) \<Rightarrow>
               (case chamar env Execute r2 of
                  (Some e, r3) \<Rightarrow> (Some e, r3)
                | (None, r3) \<Rightarrow> chamar env Commit r3)))"

definition atualizar_autorizacao_guia ::
  "db_env \<Rightarrow> repo \<Rightarrow> (exn + resultado_proc) \<times> repo" where
  "atualizar_autorizacao_guia env r =
     (case chamadas_guia env r of
        (None, r') \<Rightarrow>
          (Inr \<lparr>proc_status = ''SUCESSO'',
                proc_mensagem = ''Dados da guia atualizados com sucesso'',
                proc_estagio = PNone\<rparr>, r')
      | (Some e, r') \<Rightarrow> tratar_erro_proc env e r')"

text \<open>The \<open>try\<close> of \<open>atualizar_estagio_autorizacao\<close> (lines 234 to 263).\<close>

definition chamadas_estagio :: "db_env \<Rightarrow> pyval \<Rightarrow> repo \<Rightarrow> (exn + int) \<times> repo" where
  "chamadas_estagio env status_rpa r =
     (case get_connection env r of
        (Some e, r1) \<Rightarrow> (Inl e, r1)
      | (None, r1) \<Rightarrow>
          (case chamar env Cursor r1 of
             (Some e, r2) \<Rightarrow> (Inl e, r2)
           | (None, r2) \<Rightarrow>
               (case obter_estagio_por_status status_rpa of
                  Inl e \<Rightarrow> (Inl e, r2)
                | Inr nr_seq_estagio \<Rightarrow>
                    (case chamar env Execute r2 of
                       (Some e, r3) \<Rightarrow> (Inl e, r3)
                     | (None, r3) \<Rightarrow>
                         (case chamar env Commit r3 of
                            (Some e, r4) \<Rightarrow> (Inl e, r4)
                          | (None, r4) \<Rightarrow> (Inr nr_seq_estagio, r4))))))"

definition atualizar_estagio_autorizacao ::
  "db_env \<Rightarrow> pyval \<Rightarrow> repo \<Rightarrow> (exn + resultado_proc) \<times> repo" where
  "atualizar_estagio_autorizacao env status_rpa r =
     (case chamadas_estagio env status_rpa r of
        (Inr nr_seq_estagio, r') \<Rightarrow>
          (Inr \<lparr>proc_status = ''SUCESSO'',
                proc_mensagem = ''Est'' @ [CHR 0xC3, CHR 0xA1] @ ''gio atualizado para ''
                                @ str_int nr_seq_estagio,
                proc_estagio = PInt nr_seq_estagio\<rparr>, r')
      | (Inl e, r') \<Rightarrow> tratar_erro_proc env e r')"

subsection \<open>The handler\<close>

definition falha_obrigatorio :: "ExternalTask \<Rightarrow> TaskResult" where
  "falha_obrigatorio task =
     Failure task
       (''nr_sequencia '' @ [CHR 0xC3, CHR 0xA9] @ '' obrigat'' @ [CHR 0xC3, CHR 0xB3] @ ''rio'')
       (''O par'' @ [CHR 0xC3, CHR 0xA2] @ ''metro nr_sequencia deve ser informado ao iniciar o processo'')
       0 5000"

definition falha_invalido :: "(pyval \<Rightarrow> string) \<Rightarrow> ExternalTask \<Rightarrow> pyval \<Rightarrow> TaskResult" where
  "falha_invalido repr task nr_sequencia =
     Failure task
       (''nr_sequencia inv'' @ [CHR 0xC3, CHR 0xA1] @ ''lido: '' @ py_str repr nr_sequencia)
       (''O par'' @ [CHR 0xC3, CHR 0xA2] @ ''metro nr_sequencia deve ser um n''
          @ [CHR 0xC3, CHR 0xBA] @ ''mero inteiro'')
       0 5000"

text \<open>\<open>' | '.join(mensagens)\<close>.\<close>

fun juntar :: "string list \<Rightarrow> string" where
  "juntar [] = []"
| "juntar [m] = m"
| "juntar (m # ms) = m @ '' | '' @ juntar ms"

text \<open>
  The body of the \<open>try\<close> of the handler (lines 345 to 387): the two procedure calls
  and the result reported.
\<close>

definition corpo_atualizar ::
  "db_env \<Rightarrow> (pyval \<Rightarrow> string) \<Rightarrow> ExternalTask \<Rightarrow> pyval \<Rightarrow> pyval \<Rightarrow> repo
     \<Rightarrow> (exn + TaskResult) \<times> repo" where
  "corpo_atualizar env repr task guia_rpa status_rpa r =
     (case (if truthy guia_rpa then
              (case atualizar_autorizacao_guia env r of
                 (Inl e, r1) \<Rightarrow> (Inl e, r1)
               | (Inr resultado_guia, r1) \<Rightarrow>
                   if proc_status resultado_guia = ''ERRO''
                   then (Inr (''ERRO'', [''Guia: '' @ proc_mensagem resultado_guia]), r1)
                   else (Inr (''SUCESSO'', [''Guia atualizada'']), r1))
            else (Inr (''SUCESSO'', [''Guia n'' @ [CHR 0xC3, CHR 0xA3] @ ''o informada (ignorado)'']), r))
      of
        (Inl e, r1) \<Rightarrow> (Inl e, r1)
      | (Inr (oracle_status, mensagens), r1) \<Rightarrow>
          (case (if truthy status_rpa then
                   (case atualizar_estagio_autorizacao env status_rpa r1 of
                      (Inl e, r2) \<Rightarrow> (Inl e, r2)
                    | (Inr resultado_estagio, r2) \<Rightarrow>
                        if proc_status resultado_estagio = ''ERRO''
                        then (Inr (''ERRO'', PNone,
                                   mensagens @ [''Est'' @ [CHR 0xC3, CHR 0xA1] @ ''gio: ''
                                                @ proc_mensagem resultado_estagio]), r2)
                        else (Inr (oracle_status, proc_estagio resultado_estagio,
                                   mensagens @ [''Est'' @ [CHR 0xC3, CHR 0xA1] @ ''gio: ''
                                                @ py_str repr (proc_estagio resultado_estagio)]), r2))
                 else (Inr (oracle_status, PNone,
                            mensagens @ [''Status n'' @ [CHR 0xC3, CHR 0xA3]
                                         @ ''o informado (ignorado)'']), r1))
           of
             (Inl e, r2) \<Rightarrow> (Inl e, r2)
           | (Inr (oracle_status', nr_seq_estagio, mensagens'), r2) \<Rightarrow>
               (Inr (Success task
                  [(''oracle_status'', PStr oracle_status'),
                   (''oracle_mensagem'', PStr (juntar mensagens')),
                   (''nr_seq_estagio'', nr_seq_estagio)]), r2)))"

text \<open>
  The \<open>finally\<close> of the handler (lines 400 and 401): the repository is closed on every
  exit of the \<open>try\<close>, and an exception of the close takes the place of the result or
  of the exception that was on its way out.
\<close>

definition finalmente ::
  "db_env \<Rightarrow> (exn + TaskResult) \<times> repo \<Rightarrow> (exn + TaskResult) \<times> repo option" where
  "finalmente env saindo =
     (case saindo of (res, r) \<Rightarrow>
        (case close env r of
           (Some e, r') \<Rightarrow> (Inl e, Some r')
         | (None, r') \<Rightarrow> (res, Some r')))"

text \<open>
  \<open>handle_atualizar_autorizacao\<close>.  The second component is the repository as the
  handler leaves it, \<open>None\<close> when the handler returned before constructing one.  The
  \<open>except (ValueError, TypeError)\<close> of the conversion lets any other exception pass.
\<close>

definition handle_atualizar_autorizacao ::
  "db_env \<Rightarrow> (pyval \<Rightarrow> string) \<Rightarrow> (string \<Rightarrow> exn + int) \<Rightarrow> ExternalTask
     \<Rightarrow> (exn + TaskResult) \<times> repo option" where
  "handle_atualizar_autorizacao env repr int_u task =
     (let nr_sequencia = dict_get (variables task) ''nr_sequencia'' PNone;
          guia_rpa = dict_get (variables task) ''nr_guia_requisicao'' PNone;
          status_rpa = dict_get (variables task) ''status_autorizacao'' PNone
      in if \<not> truthy nr_sequencia then (Inr (falha_obrigatorio task), None)
         else
           (case py_int repr int_u nr_sequencia of
              Inl e \<Rightarrow>
                if kind e = ValueError \<or> kind e = TypeError
                then (Inr (falha_invalido repr task nr_sequencia), None)
                else (Inl e, None)
            | Inr n \<Rightarrow>
                (let repository = \<lparr>connection = None, chamadas = 0, abertas = [], historico = []\<rparr>
                 in case corpo_atualizar env repr task guia_rpa status_rpa repository of
                      (Inr resultado, r) \<Rightarrow> finalmente env (Inr resultado, r)
                    | (Inl e, r) \<Rightarrow>
                        if is_Exception e then
                          finalmente env
                            (Inr (Success task
                               [(''oracle_status'', PStr ''ERRO''),
                                (''oracle_mensagem'', PStr (str_exn e)),
                                (''nr_seq_estagio'', PNone)]), r)
                        else finalmente env (Inl e, r))))"

section \<open>Predicates used in the statements\<close>

text \<open>
  The shape of a payload: its \<open>outputs\<close> is a dict, and its \<open>variables\<close>, when it
  is a list, holds dicts only.
\<close>

definition is_dict :: "pyval \<Rightarrow> bool" where
  "is_dict v = (case v of PDict d \<Rightarrow> True | _ \<Rightarrow> False)"


definition variables_sao_dicts :: "(string \<times> pyval) list \<Rightarrow> bool" where
  "variables_sao_dicts ro =
     (case dict_get ro ''variables'' (PList []) of
        PList vs \<Rightarrow> list_all is_dict vs
      | _ \<Rightarrow> True)"





text \<open>
  The internal state that a step of the poller amounts to: it goes on polling, or it
  returns with the status of a finished or of a failed run.
\<close>

datatype estado = Running | Succeeded | Failed

definition estado_do_passo :: "passo \<Rightarrow> estado option" where
  "estado_do_passo p =
     (case p of
        Continua \<Rightarrow> Some Running
      | Retorna r \<Rightarrow>
          (if fst r = ''SUCESSO'' then Some Succeeded
           else if fst r = ''ERRO'' then Some Failed
           else None)
      | Levanta e \<Rightarrow> None)"

text \<open>
  A poll outcome after which the poller goes on: a network error, or a response whose
  status is a string that is neither in the success list nor in the failure list.
\<close>

definition resposta_nao_terminal :: "exn + pyval \<Rightarrow> bool" where
  "resposta_nao_terminal r =
     (case r of
        Inl e \<Rightarrow> kind e = RequestException
      | Inr data \<Rightarrow>
          (case data of
             PDict d \<Rightarrow>
               (case dict_get d ''status'' (PStr []) of
                  PStr st \<Rightarrow> classificar (upper st) = EmExecucao \<or> classificar (upper st) = Desconhecido
                | _ \<Rightarrow> False)
           | _ \<Rightarrow> False))"


text \<open>
  Two spellings of a status are the same up to the case of the letters \<open>a\<close> to \<open>z\<close>:
  position by position they have the same character, or the lower-case and the
  upper-case form of one letter.
\<close>

definition pares_de_letras :: "(char \<times> char) list" where
  "pares_de_letras = zip ''abcdefghijklmnopqrstuvwxyz'' ''ABCDEFGHIJKLMNOPQRSTUVWXYZ''"

definition mesma_letra :: "char \<Rightarrow> char \<Rightarrow> bool" where
  "mesma_letra a b = (a = b \<or> (a, b) \<in> set pares_de_letras \<or> (b, a) \<in> set pares_de_letras)"

definition mesmas_letras :: "string \<Rightarrow> string \<Rightarrow> bool" where
  "mesmas_letras s1 s2 = list_all2 mesma_letra s1 s2"

text \<open>The connections open on the database are exactly the one the repository holds.\<close>

definition conexoes_ok :: "repo \<Rightarrow> bool" where
  "conexoes_ok r = (abertas r = (case connection r of None \<Rightarrow> [] | Some c \<Rightarrow> [c]))"

text \<open>
  What holds of every run of the poller that returns: each status poll it issued was
  issued before the budget had elapsed, it does not raise a network error, and its
  status is one of three, \<open>TIMEOUT\<close> only once the budget has elapsed and with no
  output.
\<close>

definition poller_ok :: "IBMRPAConfig \<Rightarrow> real \<Rightarrow> pstate \<Rightarrow> (exn + resultado_rpa) \<times> pstate \<Rightarrow> bool" where
  "poller_ok cfg t0 s y =
     ((\<forall>t. Consulta t \<in> set (trace (snd y)) \<longrightarrow>
            Consulta t \<in> set (trace s) \<or> t - t0 < real_of_int (timeout_seconds cfg)) \<and>
      (\<forall>e. fst y = Inl e \<longrightarrow> kind e \<noteq> RequestException) \<and>
      (\<forall>st msg out. fst y = Inr (st, msg, out) \<longrightarrow>
          (st = ''SUCESSO'' \<or> st = ''ERRO'' \<or> st = ''TIMEOUT'') \<and>
          (st = ''TIMEOUT'' \<longrightarrow>
             real_of_int (timeout_seconds cfg) \<le> now (snd y) - t0 \<and> out = PNone)))"

section \<open>Concrete inputs\<close>

text \<open>A stand-in for \<open>repr\<close>; none of the inputs below reaches it.\<close>

definition repr_exemplo :: "pyval \<Rightarrow> string" where
  "repr_exemplo v = ''?''"

text \<open>A stand-in for \<open>int\<close> on a string that is not ASCII; no input below reaches it.\<close>

definition int_exemplo :: "string \<Rightarrow> exn + int" where
  "int_exemplo s = Inr 0"

definition cfg_exemplo :: IBMRPAConfig where
  "cfg_exemplo = \<lparr>process_id = ''p1'', timeout_seconds = 30, poll_interval_seconds = 5\<rparr>"

text \<open>A task whose \<open>convenio_codigo\<close> is the string \<open>abc\<close>.\<close>

definition task_abc :: ExternalTask where
  "task_abc = \<lparr>task_id = ''t1'', variables = [(''convenio_codigo'', PStr ''abc'')]\<rparr>"

text \<open>
  What the poller returns for a finished run whose response has these \<open>outputs\<close> and
  no \<open>variables\<close>.
\<close>

definition payload_concluido :: "(string \<times> pyval) list \<Rightarrow> (string \<times> pyval) list" where
  "payload_concluido od = [(''outputs'', PDict od), (''variables'', PList [])]"

text \<open>Outputs with the first alias of the status empty and the second one set.\<close>

definition saidas_status_vazio :: "(string \<times> pyval) list" where
  "saidas_status_vazio =
     [(''status_autorizacao'', PStr []), (''statusAutorizacao'', PStr ''Negado'')]"

text \<open>Outputs with two aliases of the guide number and two of the status set.\<close>

definition saidas_dois_alias :: "(string \<times> pyval) list" where
  "saidas_dois_alias =
     [(''nr_guia_requisicao'', PStr ''A1''), (''nrGuiaRequisicao'', PStr ''B2''),
      (''status_autorizacao'', PStr ''Negado''), (''statusAutorizacao'', PStr ''Autorizado'')]"

text \<open>Outputs with the guide number under \<open>nrGuiaRequisicao\<close> only, as a float.\<close>

definition saidas_guia_float :: "real \<Rightarrow> (string \<times> pyval) list" where
  "saidas_guia_float x = [(''nrGuiaRequisicao'', PFloat (Fin x))]"





text \<open>
  A finished run whose guide number is a float in \<open>outputs\<close>, with a \<open>variables\<close>
  list that holds infinity under the same alias.
\<close>

definition campos_guia_float :: "(string \<times> pyval) list" where
  "campos_guia_float =
     [(''outputs'', PDict [(''nrGuiaRequisicao'', PFloat (Fin 95687))]),
      (''variables'',
       PList [PDict [(''name'', PStr ''nrGuiaRequisicao''), (''value'', PFloat PosInf)]])]"

text \<open>
  A remote system that answers \<open>running\<close> twice and \<open>done\<close> from the third poll on,
  each call taking no time.
\<close>

definition env_exemplo :: rpa_env where
  "env_exemplo =
     \<lparr>iniciar = (\<lambda>p v. Inr (PStr ''i1'')),
      consultar = (\<lambda>k. Inr (PDict [(''status'', PStr (if k < 2 then ''running'' else ''done''))])),
      latencia = (\<lambda>k. 0), agora0 = 0, data_execucao = ''2025-01-01T00:00:00'',
      repr_of = repr_exemplo, int_unicode = int_exemplo\<rparr>"


text \<open>A remote system that answers \<open>RUNNING\<close> for ever.\<close>

definition env_running :: rpa_env where
  "env_running =
     \<lparr>iniciar = (\<lambda>p v. Inr (PStr ''i1'')),
      consultar = (\<lambda>k. Inr (PDict [(''status'', PStr ''RUNNING'')])),
      latencia = (\<lambda>k. 0), agora0 = 0, data_execucao = ''2025-01-01T00:00:00'',
      repr_of = repr_exemplo, int_unicode = int_exemplo\<rparr>"

text \<open>A remote system whose first status poll fails on the network and whose later ones
  answer \<open>DONE\<close>.\<close>

definition env_rede :: rpa_env where
  "env_rede =
     \<lparr>iniciar = (\<lambda>p v. Inr (PStr ''i1'')),
      consultar = (\<lambda>k. if k = 0 then Inl (Exn RequestException ''connection reset'')
                         else Inr (PDict [(''status'', PStr ''DONE'')])),
      latencia = (\<lambda>k. 0), agora0 = 0, data_execucao = ''2025-01-01T00:00:00'',
      repr_of = repr_exemplo, int_unicode = int_exemplo\<rparr>"

text \<open>A remote system that reports a failed run with its message.\<close>

definition resposta_falha :: "(string \<times> pyval) list" where
  "resposta_falha = [(''status'', PStr ''Failed''), (''errorMessage'', PStr ''robot crashed'')]"

definition env_falha :: rpa_env where
  "env_falha =
     \<lparr>iniciar = (\<lambda>p v. Inr (PStr ''i1'')),
      consultar = (\<lambda>k. Inr (PDict resposta_falha)),
      latencia = (\<lambda>k. 0), agora0 = 0, data_execucao = ''2025-01-01T00:00:00'',
      repr_of = repr_exemplo, int_unicode = int_exemplo\<rparr>"

definition estado_inicial :: pstate where
  "estado_inicial = \<lparr>now = 0, polls = 0, trace = []\<rparr>"

text \<open>The poller of \<open>env_exemplo\<close> after two polls and two sleeps of five seconds.\<close>

definition estado_apos_dois :: pstate where
  "estado_apos_dois = \<lparr>now = 10, polls = 2, trace = []\<rparr>"


text \<open>
  A driver whose calls all succeed; one whose second call is interrupted from the
  keyboard; one whose third call (the execute) fails; one whose close fails.
\<close>

definition db_ok :: db_env where
  "db_ok k op = None"

definition db_interrompido :: db_env where
  "db_interrompido k op = (if k = 1 then Some (Exn KeyboardInterrupt []) else None)"

definition db_falha :: db_env where
  "db_falha k op = (if k = 2 then Some (Exn DatabaseError ''ORA-06550'') else None)"

definition db_close_falha :: db_env where
  "db_close_falha k op = (if op = Close then Some (Exn DatabaseError ''DPY-1001'') else None)"

definition task_oracle :: ExternalTask where
  "task_oracle =
     \<lparr>task_id = ''t2'',
      variables = [(''nr_sequencia'', PInt 77), (''nr_guia_requisicao'', PStr ''95687''),
                   (''status_autorizacao'', PStr ''Autorizado'')]\<rparr>"

section \<open>Lemmas on values and on the extraction of the output variables\<close>

lemma digit_char_in: "d < 10 \<Longrightarrow> digit_char d \<in> set ''0123456789''"
  unfolding digit_char_def by (rule nth_mem) simp

lemma str_nat_digits: "set (str_nat n) \<subseteq> set ''0123456789''"
proof (induction n rule: str_nat.induct)
  case (1 n)
  show ?case
  proof (cases "n < 10")
    case True
    then show ?thesis using digit_char_in [of n] by (subst str_nat.simps) simp
  next
    case False
    have "n mod 10 < 10" by simp
    then have "digit_char (n mod 10) \<in> set ''0123456789''" by (rule digit_char_in)
    with False "1.IH" show ?thesis by (subst str_nat.simps) simp
  qed
qed

lemma str_nat_nonempty: "str_nat n \<noteq> []"
  by (subst str_nat.simps) simp

lemma str_int_nonempty: "str_int i \<noteq> []"
  by (simp add: str_int_def str_nat_nonempty)

lemma digits_sub: "set ''0123456789'' \<subseteq> set ''-0123456789''"
  by (rule set_subset_Cons)

lemma str_int_chars: "set (str_int i) \<subseteq> set ''-0123456789''"
proof (cases "i < 0")
  case True
  have "set (str_nat (nat (- i))) \<subseteq> set ''-0123456789''"
    using str_nat_digits digits_sub by (rule subset_trans)
  with True show ?thesis by (simp add: str_int_def)
next
  case False
  have "set (str_nat (nat i)) \<subseteq> set ''-0123456789''"
    using str_nat_digits digits_sub by (rule subset_trans)
  with False show ?thesis by (simp add: str_int_def)
qed

lemma point_not_digit: "CHR ''.'' \<notin> set ''-0123456789''"
  by simp

lemma str_int_no_point: "CHR ''.'' \<notin> set (str_int i)"
  using str_int_chars [of i] point_not_digit by blast

lemma primeiro_valor_find:
  "find truthy (map (\<lambda>a. dict_get od a PNone) as) = Some v \<Longrightarrow> primeiro_valor od as = v"
proof (induction od as rule: primeiro_valor.induct)
  case (1 d)
  then show ?case by simp
next
  case (2 d a)
  then show ?case by (simp split: if_splits)
next
  case (3 d a v va)
  then show ?case by (simp add: py_or_def split: if_splits)
qed


lemma texto_guia_result:
  "texto_guia repr v = Inr g \<Longrightarrow> g = PNone \<or> (\<exists>s. g = PStr s)"
  by (cases v) (auto simp: texto_guia_def split: sum.splits)



lemma examinar_keeps:
  assumes "examinar_variavel repr var sd = Inr sd'"
  shows "(truthy (numero_autorizacao sd) \<longrightarrow> numero_autorizacao sd' = numero_autorizacao sd) \<and>
         (truthy (status_autorizacao sd) \<longrightarrow> status_autorizacao sd' = status_autorizacao sd) \<and>
         (truthy (nr_guia_requisicao sd) \<longrightarrow> nr_guia_requisicao sd' = nr_guia_requisicao sd)"
  using assms unfolding examinar_variavel_def
  by (auto split: sum.splits if_splits)


lemma percorrer_keeps:
  "percorrer_variables repr vs sd = Inr sd' \<Longrightarrow>
     (truthy (numero_autorizacao sd) \<longrightarrow> numero_autorizacao sd' = numero_autorizacao sd) \<and>
     (truthy (status_autorizacao sd) \<longrightarrow> status_autorizacao sd' = status_autorizacao sd) \<and>
     (truthy (nr_guia_requisicao sd) \<longrightarrow> nr_guia_requisicao sd' = nr_guia_requisicao sd)"
proof (induction vs arbitrary: sd)
  case Nil
  then show ?case by simp
next
  case (Cons var vs)
  from Cons.prems obtain sd1 where
    s1: "examinar_variavel repr var sd = Inr sd1" and s2: "percorrer_variables repr vs sd1 = Inr sd'"
    by (auto split: sum.splits)
  from examinar_keeps [OF s1] Cons.IH [OF s2] show ?case by auto
qed



lemma examinar_guia_extraida:
  assumes "is_dict var" and "truthy (nr_guia_requisicao sd)"
  shows "\<exists>sd'. examinar_variavel repr var sd = Inr sd' \<and>
               nr_guia_requisicao sd' = nr_guia_requisicao sd"
proof (cases var)
  case (PDict d)
  with assms(2) show ?thesis by (simp add: examinar_variavel_def)
qed (use assms(1) in \<open>simp_all add: is_dict_def\<close>)

lemma percorrer_guia_extraida:
  "list_all is_dict vs \<Longrightarrow> truthy (nr_guia_requisicao sd) \<Longrightarrow>
     \<exists>sd'. percorrer_variables repr vs sd = Inr sd'"
proof (induction vs arbitrary: sd)
  case Nil
  then show ?case by simp
next
  case (Cons var vs)
  from Cons.prems have d: "is_dict var" and rest: "list_all is_dict vs" by simp_all
  from examinar_guia_extraida [OF d Cons.prems(2), where repr = repr] obtain sd1 where
    e: "examinar_variavel repr var sd = Inr sd1" and g: "truthy (nr_guia_requisicao sd1)"
    using Cons.prems(2) by auto
  from Cons.IH [OF rest g] e show ?case by simp
qed

lemma examinar_nao_dict_kind:
  "\<not> is_dict var \<Longrightarrow> \<exists>e. examinar_variavel repr var sd = Inl e \<and> kind e = AttributeError"
  by (cases var) (simp_all add: is_dict_def examinar_variavel_def no_attribute_def)

lemma percorrer_guia_nao_dict:
  "\<not> list_all is_dict vs \<Longrightarrow> truthy (nr_guia_requisicao sd) \<Longrightarrow>
     \<exists>e. percorrer_variables repr vs sd = Inl e \<and> kind e = AttributeError"
proof (induction vs arbitrary: sd)
  case Nil
  then show ?case by simp
next
  case (Cons var vs)
  show ?case
  proof (cases "is_dict var")
    case False
    from examinar_nao_dict_kind [OF False, where repr = repr and sd = sd] show ?thesis by auto
  next
    case True
    from examinar_guia_extraida [OF True Cons.prems(2), where repr = repr] obtain sd1 where
      e: "examinar_variavel repr var sd = Inr sd1" and g: "truthy (nr_guia_requisicao sd1)"
      using Cons.prems(2) by auto
    from True Cons.prems(1) have "\<not> list_all is_dict vs" by simp
    from Cons.IH [OF this g] e show ?thesis by simp
  qed
qed




lemma texto_guia_truthy:
  assumes "truthy v" and "\<And>x. repr x \<noteq> []" and "texto_guia repr v = Inr g"
  shows "truthy g"
proof (cases v)
  case (PFloat f)
  with assms(3) show ?thesis
    by (cases f) (auto simp: texto_guia_def str_int_nonempty)
next
  case (PBool b)
  with assms(1,3) show ?thesis by (auto simp: texto_guia_def)
next
  case (PInt i)
  with assms(3) show ?thesis by (auto simp: texto_guia_def str_int_nonempty)
next
  case (PStr s)
  with assms(1,3) show ?thesis by (auto simp: texto_guia_def)
next
  case (PList xs)
  with assms(2,3) show ?thesis by (auto simp: texto_guia_def)
next
  case (PDict d)
  with assms(2,3) show ?thesis by (auto simp: texto_guia_def)
next
  case PNone
  with assms(1) show ?thesis by simp
qed

lemma extrair_saida_dict:
  assumes "map_of ro ''outputs'' = Some (PDict od)"
  shows "extrair_saida repr (PDict ro) =
     (case texto_guia repr (primeiro_valor od aliases_guia) of
        Inl e \<Rightarrow> Inl e
      | Inr guia \<Rightarrow>
          (case dict_get ro ''variables'' (PList []) of
             PList vs \<Rightarrow> percorrer_variables repr vs
               \<lparr>numero_autorizacao = primeiro_valor od aliases_numero,
                status_autorizacao = primeiro_valor od aliases_status,
                nr_guia_requisicao = guia\<rparr>
           | _ \<Rightarrow> Inr \<lparr>numero_autorizacao = primeiro_valor od aliases_numero,
                status_autorizacao = primeiro_valor od aliases_status,
                nr_guia_requisicao = guia\<rparr>))"
proof -
  from assms have "ro \<noteq> []" by auto
  with assms show ?thesis
    by (simp add: extrair_saida_def dict_get_def Let_def split: sum.splits pyval.splits)
qed

lemma extrair_saida_campos:
  assumes o: "map_of ro ''outputs'' = Some (PDict od)"
      and r: "extrair_saida repr (PDict ro) = Inr sd"
  shows "\<exists>guia. texto_guia repr (primeiro_valor od aliases_guia) = Inr guia \<and>
           (truthy (primeiro_valor od aliases_numero) \<longrightarrow>
              numero_autorizacao sd = primeiro_valor od aliases_numero) \<and>
           (truthy (primeiro_valor od aliases_status) \<longrightarrow>
              status_autorizacao sd = primeiro_valor od aliases_status) \<and>
           (truthy guia \<longrightarrow> nr_guia_requisicao sd = guia)"
proof -
  from r obtain guia where g: "texto_guia repr (primeiro_valor od aliases_guia) = Inr guia"
    unfolding extrair_saida_dict [OF o] by (auto split: sum.splits)
  let ?sd0 = "\<lparr>numero_autorizacao = primeiro_valor od aliases_numero,
               status_autorizacao = primeiro_valor od aliases_status,
               nr_guia_requisicao = guia\<rparr>"
  have k: "(truthy (numero_autorizacao ?sd0) \<longrightarrow> numero_autorizacao sd = numero_autorizacao ?sd0) \<and>
           (truthy (status_autorizacao ?sd0) \<longrightarrow> status_autorizacao sd = status_autorizacao ?sd0) \<and>
           (truthy (nr_guia_requisicao ?sd0) \<longrightarrow> nr_guia_requisicao sd = nr_guia_requisicao ?sd0)"
  proof (cases "dict_get ro ''variables'' (PList [])")
    case (PList vs)
    with r g have "percorrer_variables repr vs ?sd0 = Inr sd"
      unfolding extrair_saida_dict [OF o] by simp
    then show ?thesis by (rule percorrer_keeps)
  qed (use r g in \<open>auto simp: extrair_saida_dict [OF o]\<close>)
  with g show ?thesis by auto
qed

lemma find_truthy: "find truthy xs = Some v \<Longrightarrow> truthy v"
  by (auto simp: find_Some_iff)










lemma parse_int_abc: "parse_int ''abc'' = None"
  by (simp add: parse_int_def strip_c_def espacos_c_def is_digit_def)

lemma extrair_dois_alias:
  "extrair_saida repr_exemplo (PDict (payload_concluido saidas_dois_alias))
     = Inr \<lparr>numero_autorizacao = PNone, status_autorizacao = PStr ''Negado'',
            nr_guia_requisicao = PStr ''A1''\<rparr>"
  by (simp add: extrair_saida_def payload_concluido_def saidas_dois_alias_def dict_get_def aliases_guia_def
        aliases_status_def aliases_numero_def py_or_def texto_guia_def)

lemma str_int_95687: "str_int 95687 = ''95687''"
  by (simp add: str_int_def str_nat.simps digit_char_def)

section \<open>Lemmas on the poller and on the handler of the IBM RPA worker\<close>

lemma tentativa_continua:
  assumes "0 \<le> poll_interval_seconds cfg" and "resposta_nao_terminal (consultar env (polls s))"
  shows "\<exists>s'. tentativa cfg env s = (Continua, s') \<and>
           now s' = now s + latencia env (polls s) + real_of_int (poll_interval_seconds cfg) \<and>
           polls s' = Suc (polls s)"
proof (cases "consultar env (polls s)")
  case (Inl e)
  with assms show ?thesis
    by (simp add: tentativa_def consultar_status_instancia_def resposta_nao_terminal_def
          sleep_def registrar_def Let_def)
next
  case (Inr data)
  with assms(2) obtain d st where d: "data = PDict d" and st: "dict_get d ''status'' (PStr []) = PStr st"
    and c: "classificar (upper st) = EmExecucao \<or> classificar (upper st) = Desconhecido"
    by (auto simp: resposta_nao_terminal_def split: pyval.splits)
  from c show ?thesis
  proof
    assume "classificar (upper st) = EmExecucao"
    with Inr d st assms(1) show ?thesis
      by (simp add: tentativa_def consultar_status_instancia_def sleep_def registrar_def Let_def)
  next
    assume "classificar (upper st) = Desconhecido"
    with Inr d st assms(1) show ?thesis
      by (simp add: tentativa_def consultar_status_instancia_def sleep_def registrar_def Let_def)
  qed
qed

lemma aguardar_loop_expirado:
  "real_of_int (timeout_seconds cfg) \<le> now s - t0 \<Longrightarrow>
     aguardar_loop cfg env t0 s =
       Some (Inr (''TIMEOUT'', msg_timeout (timeout_seconds cfg), PNone), registrar Warning s)"
  by (subst aguardar_loop.simps) (simp add: Let_def)

lemma aguardar_loop_continua:
  "\<not> real_of_int (timeout_seconds cfg) \<le> now s - t0 \<Longrightarrow> tentativa cfg env s = (Continua, s') \<Longrightarrow>
     aguardar_loop cfg env t0 s = aguardar_loop cfg env t0 s'"
  by (subst aguardar_loop.simps) (simp add: Let_def)

lemma medida_decresce:
  fixes x x' d :: real
  assumes "0 < d" and "0 < x" and "x' \<le> x - d"
  shows "nat \<lceil>x' / d\<rceil> < nat \<lceil>x / d\<rceil>"
proof -
  from assms have "x' / d \<le> x / d - 1"
    by (simp add: field_simps)
  then have "\<lceil>x' / d\<rceil> \<le> \<lceil>x / d - 1\<rceil>" by (rule ceiling_mono)
  also have "\<dots> = \<lceil>x / d\<rceil> - 1" by simp
  finally have le: "\<lceil>x' / d\<rceil> \<le> \<lceil>x / d\<rceil> - 1" .
  from assms have "0 < x / d" by simp
  then have "0 < \<lceil>x / d\<rceil>" by simp
  with le show ?thesis by linarith
qed

lemma aguardar_loop_termina:
  assumes nt: "\<forall>k. resposta_nao_terminal (consultar env k)"
      and i0: "0 \<le> poll_interval_seconds cfg"
      and d0: "0 < d"
      and prog: "\<forall>k. d \<le> latencia env k + real_of_int (poll_interval_seconds cfg)"
  shows "\<exists>sf. aguardar_loop cfg env t0 s =
               Some (Inr (''TIMEOUT'', msg_timeout (timeout_seconds cfg), PNone),
                     registrar Warning sf) \<and>
             real_of_int (timeout_seconds cfg) \<le> now sf - t0"
proof (induction "nat \<lceil>(real_of_int (timeout_seconds cfg) - (now s - t0)) / d\<rceil>"
         arbitrary: s rule: less_induct)
  case less
  show ?case
  proof (cases "real_of_int (timeout_seconds cfg) \<le> now s - t0")
    case True
    then show ?thesis
      by (auto simp: aguardar_loop_expirado)
  next
    case False
    from nt have "resposta_nao_terminal (consultar env (polls s))" by simp
    from tentativa_continua [OF i0 this] obtain s1 where
      t: "tentativa cfg env s = (Continua, s1)" and
      n: "now s1 = now s + latencia env (polls s) + real_of_int (poll_interval_seconds cfg)"
      by blast
    from prog n have adv: "now s + d \<le> now s1" by (simp add: add.assoc)
    have "nat \<lceil>(real_of_int (timeout_seconds cfg) - (now s1 - t0)) / d\<rceil>
            < nat \<lceil>(real_of_int (timeout_seconds cfg) - (now s - t0)) / d\<rceil>"
      using d0 False adv by (intro medida_decresce) simp_all
    from less [OF this] aguardar_loop_continua [OF False t] show ?thesis by simp
  qed
qed

lemma sleep_trace: "sleep d s = Inr s' \<Longrightarrow> trace s' = trace s @ [Dormiu d] \<and> polls s' = polls s"
  by (auto simp: sleep_def split: if_splits)

lemma sleep_exn: "sleep d s = Inl e \<Longrightarrow> kind e = ValueError \<and> d < 0"
  by (auto simp: sleep_def split: if_splits)

lemma py_upper_exn: "py_upper v = Inl e \<Longrightarrow> kind e = AttributeError"
  by (cases v) (auto simp: no_attribute_def)

lemma tentativa_resumo:
  assumes "tentativa cfg env s = (p, s')"
  shows "(\<exists>evs. trace s' = trace s @ Consulta (now s) # evs \<and> (\<forall>t. Consulta t \<notin> set evs)) \<and>
         polls s' = Suc (polls s) \<and>
         (\<forall>e. p = Levanta e \<longrightarrow> kind e \<noteq> RequestException) \<and>
         (\<forall>st msg out. p = Retorna (st, msg, out) \<longrightarrow> st = ''SUCESSO'' \<or> st = ''ERRO'')"
proof (cases "consultar env (polls s)")
  case (Inl e)
  show ?thesis
  proof (cases "kind e = RequestException")
    case True
    with Inl assms show ?thesis
      by (auto simp: tentativa_def consultar_status_instancia_def registrar_def Let_def
               split: sum.splits dest!: sleep_trace sleep_exn)
  next
    case False
    with Inl assms show ?thesis
      by (auto simp: tentativa_def consultar_status_instancia_def)
  qed
next
  case (Inr data)
  show ?thesis
  proof (cases data)
    case (PDict d)
    show ?thesis
    proof (cases "py_upper (dict_get d ''status'' (PStr []))")
      case (Inl e)
      with Inr PDict assms py_upper_exn [OF Inl] show ?thesis
        by (auto simp: tentativa_def consultar_status_instancia_def)
    next
      case st: (Inr status)
      show ?thesis
      proof (cases "classificar status")
        case Concluido
        with Inr PDict st assms show ?thesis
          by (auto simp: tentativa_def consultar_status_instancia_def registrar_def Let_def)
      next
        case Falhou
        with Inr PDict st assms show ?thesis
          by (auto simp: tentativa_def consultar_status_instancia_def registrar_def Let_def)
      next
        case EmExecucao
        with Inr PDict st assms show ?thesis
          by (auto simp: tentativa_def consultar_status_instancia_def registrar_def Let_def
                   split: sum.splits dest!: sleep_trace sleep_exn)
      next
        case Desconhecido
        with Inr PDict st assms show ?thesis
          by (auto simp: tentativa_def consultar_status_instancia_def registrar_def Let_def
                   split: sum.splits dest!: sleep_trace sleep_exn)
      qed
    qed
  qed (use Inr assms in \<open>auto simp: tentativa_def consultar_status_instancia_def no_attribute_def\<close>)
qed

lemma aguardar_loop_ok:
  assumes ret: "aguardar_loop cfg0 env0 t00 s0 = Some y0"
  shows "poller_ok cfg0 t00 s0 y0"
proof (rule aguardar_loop.raw_induct [where P = "\<lambda>c e t s y. poller_ok c t s y", OF _ ret])
  fix loop :: "IBMRPAConfig \<Rightarrow> rpa_env \<Rightarrow> real \<Rightarrow> pstate \<Rightarrow> ((exn + resultado_rpa) \<times> pstate) option"
    and cfg env t0 s y
  assume IH: "\<And>c e t s y. loop c e t s = Some y \<Longrightarrow> poller_ok c t s y"
  assume body: "(let tempo_decorrido = now s - t0; tempo_maximo = timeout_seconds cfg
      in if real_of_int tempo_maximo \<le> tempo_decorrido
         then Some (Inr (''TIMEOUT'', msg_timeout tempo_maximo, PNone), registrar Warning s)
         else case tentativa cfg env s of (Retorna r, s') \<Rightarrow> Some (Inr r, s')
              | (Levanta e, s') \<Rightarrow> Some (Inl e, s')
              | (Continua, s') \<Rightarrow> loop cfg env t0 s') = Some y"
  show "poller_ok cfg t0 s y"
  proof (cases "real_of_int (timeout_seconds cfg) \<le> now s - t0")
    case True
    with body have "y = (Inr (''TIMEOUT'', msg_timeout (timeout_seconds cfg), PNone), registrar Warning s)"
      by (simp add: Let_def)
    with True show ?thesis by (simp add: poller_ok_def registrar_def)
  next
    case False
    obtain p s1 where t: "tentativa cfg env s = (p, s1)" by (cases "tentativa cfg env s")
    note r = tentativa_resumo [OF t]
    from r obtain evs where tr: "trace s1 = trace s @ Consulta (now s) # evs"
      and nc: "\<forall>t. Consulta t \<notin> set evs" by blast
    have new: "Consulta u \<in> set (trace s1) \<Longrightarrow>
                 Consulta u \<in> set (trace s) \<or> u - t0 < real_of_int (timeout_seconds cfg)" for u
      using tr nc False by auto
    show ?thesis
    proof (cases p)
      case (Retorna res)
      with body False t have y: "y = (Inr res, s1)" by (simp add: Let_def)
      obtain st msg out where res: "res = (st, msg, out)" by (cases res)
      from r Retorna res have "st = ''SUCESSO'' \<or> st = ''ERRO''" by blast
      with y res new show ?thesis by (auto simp: poller_ok_def)
    next
      case (Levanta e)
      with body False t have y: "y = (Inl e, s1)" by (simp add: Let_def)
      from r Levanta have "kind e \<noteq> RequestException" by blast
      with y new show ?thesis by (auto simp: poller_ok_def)
    next
      case Continua
      with body False t have "loop cfg env t0 s1 = Some y" by (simp add: Let_def)
      then have "poller_ok cfg t0 s1 y" by (rule IH)
      with new show ?thesis unfolding poller_ok_def by blast
    qed
  qed
qed

lemma env_running_nao_terminal: "\<forall>k. resposta_nao_terminal (consultar env_running k)"
  by (simp add: env_running_def resposta_nao_terminal_def dict_get_def upper_def
        maiusculas_especiais_def upper_char_def classificar_def)

lemma upper_DONE: "upper ''DONE'' = ''DONE''"
  by (simp add: upper_def maiusculas_especiais_def upper_char_def)

lemma aguardar_env_rede:
  "aguardar_loop cfg_exemplo env_rede 0 estado_inicial =
     Some (Inr (''SUCESSO'', msg_concluido,
                PDict [(''outputs'', PDict []), (''variables'', PList [])]),
           \<lparr>now = 5, polls = 2,
            trace = [Consulta 0, Log Error, Dormiu 5, Consulta 5, Log Info, Log Info]\<rparr>)"
  by (simp add: aguardar_loop.simps tentativa_def consultar_status_instancia_def cfg_exemplo_def
        env_rede_def estado_inicial_def registrar_def sleep_def dict_get_def upper_DONE
        classificar_def py_or_def Let_def)

lemma upper_done: "upper ''done'' = ''DONE''"
  by (simp add: upper_def maiusculas_especiais_def upper_char_def)

lemma upper_Failed: "upper ''Failed'' = ''FAILED''"
  by (simp add: upper_def maiusculas_especiais_def upper_char_def)







lemma pares_de_letras_todos:
  "list_all (\<lambda>(a, b). (of_char a :: nat) < 128 \<and> (of_char b :: nat) < 128 \<and>
                       upper_char a = b \<and> upper_char b = b) pares_de_letras"
  by (simp add: pares_de_letras_def upper_char_def)

lemma pares_de_letras_ascii:
  "(a, b) \<in> set pares_de_letras \<Longrightarrow>
     (of_char a :: nat) < 128 \<and> (of_char b :: nat) < 128 \<and> upper_char a = b \<and> upper_char b = b"
  using pares_de_letras_todos unfolding list_all_iff by fast

lemma mesma_letra_upper: "mesma_letra a b \<Longrightarrow> upper_char a = upper_char b"
  unfolding mesma_letra_def using pares_de_letras_ascii by metis

lemma mesma_letra_byte:
  assumes "mesma_letra a b" and "128 \<le> (of_char x :: nat)"
  shows "(x = a) = (x = b)"
proof (cases "a = b")
  case True
  then show ?thesis by simp
next
  case False
  with assms(1) have "(a, b) \<in> set pares_de_letras \<or> (b, a) \<in> set pares_de_letras"
    by (simp add: mesma_letra_def)
  then have "(of_char a :: nat) < 128 \<and> (of_char b :: nat) < 128"
    using pares_de_letras_ascii by blast
  with assms(2) show ?thesis by auto
qed

lemma comeca_com_mesmas:
  "list_all2 mesma_letra s1 s2 \<Longrightarrow> \<forall>x\<in>set p. 128 \<le> (of_char x :: nat) \<Longrightarrow>
     comeca_com p s1 = comeca_com p s2"
proof (induction p arbitrary: s1 s2)
  case Nil
  then show ?case by simp
next
  case (Cons x p)
  show ?case
  proof (cases s1)
    case Nil
    with Cons.prems(1) show ?thesis by simp
  next
    case c1: (Cons a as)
    with Cons.prems(1) obtain b bs where c2: "s2 = b # bs" and m: "mesma_letra a b"
      and r: "list_all2 mesma_letra as bs"
      by (auto simp: list_all2_Cons1)
    from Cons.prems(2) have x: "128 \<le> (of_char x :: nat)" and px: "\<forall>x\<in>set p. 128 \<le> (of_char x :: nat)"
      by simp_all
    from mesma_letra_byte [OF m x] Cons.IH [OF r px] c1 c2 show ?thesis by simp
  qed
qed

lemma maiusculas_especiais_bytes:
  "\<forall>pu\<in>set maiusculas_especiais. \<forall>x\<in>set (fst pu). 128 \<le> (of_char x :: nat)"
  by (simp add: maiusculas_especiais_def)

lemma find_especial_mesmas:
  assumes "list_all2 mesma_letra s1 s2"
  shows "find (\<lambda>(p, u). comeca_com p s1) maiusculas_especiais
           = find (\<lambda>(p, u). comeca_com p s2) maiusculas_especiais"
proof (rule find_cong [OF refl])
  fix pu assume "pu \<in> set maiusculas_especiais"
  with maiusculas_especiais_bytes have "\<forall>x\<in>set (fst pu). 128 \<le> (of_char x :: nat)" by blast
  from comeca_com_mesmas [OF assms this]
  show "(case pu of (p, u) \<Rightarrow> comeca_com p s1) = (case pu of (p, u) \<Rightarrow> comeca_com p s2)"
    by (cases pu) simp
qed

lemma upper_de_mesmas: "list_all2 mesma_letra s1 s2 \<Longrightarrow> upper_de k s1 = upper_de k s2"
proof (induction s1 s2 arbitrary: k rule: list_all2_induct)
  case Nil
  then show ?case by simp
next
  case (Cons a as b bs)
  show ?case
  proof (cases k)
    case (Suc k')
    with Cons.IH show ?thesis by simp
  next
    case 0
    from Cons.hyps have all: "list_all2 mesma_letra (a # as) (b # bs)" by simp
    note f = find_especial_mesmas [OF all]
    show ?thesis
    proof (cases "find (\<lambda>(p, u). comeca_com p (b # bs)) maiusculas_especiais")
      case None
      with f 0 Cons.IH [of 0] mesma_letra_upper [OF Cons.hyps(1)] show ?thesis by simp
    next
      case (Some pu)
      obtain p u where pu: "pu = (p, u)" by (cases pu)
      with f 0 Some Cons.IH [of "length p - 1"] show ?thesis by simp
    qed
  qed
qed

lemma mesmas_letras_upper: "mesmas_letras s1 s2 \<Longrightarrow> upper s1 = upper s2"
  unfolding mesmas_letras_def upper_def by (rule upper_de_mesmas)

lemma strip_Nil: "strip [] = []"
  by (simp add: strip_def)

lemma strip_AUTORIZADO: "strip ''AUTORIZADO'' = ''AUTORIZADO''"
  by (simp add: strip_def espacos_def)

lemma strip_autorizado: "strip ''autorizado'' = ''autorizado''"
  by (simp add: strip_def espacos_def)

lemma strip_Negado_espacos: "strip '' Negado '' = ''Negado''"
  by (simp add: strip_def espacos_def)

lemma mesmas_letras_autorizado: "mesmas_letras ''AUTORIZADO'' ''autorizado''"
  by (simp add: mesmas_letras_def mesma_letra_def pares_de_letras_def)

lemma upper_AUTORIZADO: "upper ''AUTORIZADO'' = ''AUTORIZADO''"
  by (simp add: upper_def maiusculas_especiais_def upper_char_def)






lemma tentativa_estado:
  assumes rs: "consultar env (polls s) = Inr (PDict d)"
      and st: "dict_get d ''status'' (PStr []) = PStr st"
      and i0: "0 \<le> poll_interval_seconds cfg"
  shows "estado_do_passo (fst (tentativa cfg env s)) =
           Some (if upper st \<in> {''DONE'', ''COMPLETED''} then Succeeded
                 else if upper st \<in> {''FAILED'', ''CANCELED'', ''ERROR''} then Failed
                 else Running)"
proof (cases "classificar (upper st)")
  case Concluido
  then have "upper st \<in> {''DONE'', ''COMPLETED''}"
    by (simp add: classificar_def split: if_splits)
  with Concluido rs st show ?thesis
    by (simp add: tentativa_def consultar_status_instancia_def registrar_def Let_def
          estado_do_passo_def)
next
  case Falhou
  then have "upper st \<notin> {''DONE'', ''COMPLETED''}"
    and "upper st \<in> {''FAILED'', ''CANCELED'', ''ERROR''}"
    by (simp_all add: classificar_def split: if_splits)
  with Falhou rs st show ?thesis
    by (simp add: tentativa_def consultar_status_instancia_def registrar_def Let_def
          estado_do_passo_def)
next
  case EmExecucao
  then have "upper st \<notin> {''DONE'', ''COMPLETED''}"
    and "upper st \<notin> {''FAILED'', ''CANCELED'', ''ERROR''}"
    by (simp_all add: classificar_def split: if_splits)
  with EmExecucao rs st i0 show ?thesis
    by (simp add: tentativa_def consultar_status_instancia_def registrar_def sleep_def Let_def
          estado_do_passo_def)
next
  case Desconhecido
  then have "upper st \<notin> {''DONE'', ''COMPLETED''}"
    and "upper st \<notin> {''FAILED'', ''CANCELED'', ''ERROR''}"
    by (simp_all add: classificar_def split: if_splits)
  with Desconhecido rs st i0 show ?thesis
    by (simp add: tentativa_def consultar_status_instancia_def registrar_def sleep_def Let_def
          estado_do_passo_def)
qed

section \<open>Lemmas on the repository of the Oracle worker\<close>

lemma chamar_campos:
  "chamar env op r = (x, r') \<Longrightarrow> connection r' = connection r \<and> abertas r' = abertas r"
  by (auto simp: chamar_def)

lemma chamar_ok: "conexoes_ok r \<Longrightarrow> chamar env op r = (x, r') \<Longrightarrow> conexoes_ok r'"
  by (auto simp: chamar_def conexoes_ok_def)

lemma get_connection_ok:
  assumes "conexoes_ok r" and "get_connection env r = (x, r')"
  shows "conexoes_ok r'"
proof (cases "connection r")
  case None
  obtain y r1 where c: "chamar env Connect r = (y, r1)" by (cases "chamar env Connect r")
  from chamar_campos [OF c] None assms(1) have "connection r1 = None" "abertas r1 = []"
    by (simp_all add: conexoes_ok_def)
  with assms(2) None c show ?thesis
    by (cases y) (auto simp: get_connection_def conexoes_ok_def)
next
  case (Some c)
  with assms show ?thesis by (simp add: get_connection_def)
qed

lemma desfazer_ok: "conexoes_ok r \<Longrightarrow> desfazer env r = (x, r') \<Longrightarrow> conexoes_ok r'"
  by (auto simp: desfazer_def split: if_splits dest: chamar_ok)

lemma tratar_erro_proc_ok:
  assumes "conexoes_ok r" and "tratar_erro_proc env e r = (x, r')"
  shows "conexoes_ok r'"
proof -
  obtain y r1 where d: "desfazer env r = (y, r1)" by (cases "desfazer env r")
  from desfazer_ok [OF assms(1) d] have "conexoes_ok r1" .
  with assms d show ?thesis
    by (cases y) (auto simp: tratar_erro_proc_def split: if_splits)
qed

lemma chamadas_guia_ok:
  assumes "conexoes_ok r" and "chamadas_guia env r = (x, r')"
  shows "conexoes_ok r'"
proof -
  obtain y1 r1 where g: "get_connection env r = (y1, r1)" by (cases "get_connection env r")
  obtain y2 r2 where c: "chamar env Cursor r1 = (y2, r2)" by (cases "chamar env Cursor r1")
  obtain y3 r3 where e: "chamar env Execute r2 = (y3, r3)" by (cases "chamar env Execute r2")
  obtain y4 r4 where m: "chamar env Commit r3 = (y4, r4)" by (cases "chamar env Commit r3")
  note k1 = get_connection_ok [OF assms(1) g]
  note k2 = chamar_ok [OF k1 c]
  note k3 = chamar_ok [OF k2 e]
  note k4 = chamar_ok [OF k3 m]
  from assms(2) g c e m k1 k2 k3 k4 show ?thesis
    by (auto simp: chamadas_guia_def split: option.splits)
qed

lemma atualizar_autorizacao_guia_ok:
  assumes "conexoes_ok r" and "atualizar_autorizacao_guia env r = (x, r')"
  shows "conexoes_ok r'"
proof -
  obtain y r1 where c: "chamadas_guia env r = (y, r1)" by (cases "chamadas_guia env r")
  note k = chamadas_guia_ok [OF assms(1) c]
  from assms(2) c k show ?thesis
    by (cases y) (auto simp: atualizar_autorizacao_guia_def dest: tratar_erro_proc_ok)
qed

lemma chamadas_estagio_ok:
  assumes "conexoes_ok r" and "chamadas_estagio env st r = (x, r')"
  shows "conexoes_ok r'"
proof -
  obtain y1 r1 where g: "get_connection env r = (y1, r1)" by (cases "get_connection env r")
  obtain y2 r2 where c: "chamar env Cursor r1 = (y2, r2)" by (cases "chamar env Cursor r1")
  obtain y3 r3 where e: "chamar env Execute r2 = (y3, r3)" by (cases "chamar env Execute r2")
  obtain y4 r4 where m: "chamar env Commit r3 = (y4, r4)" by (cases "chamar env Commit r3")
  note k1 = get_connection_ok [OF assms(1) g]
  note k2 = chamar_ok [OF k1 c]
  note k3 = chamar_ok [OF k2 e]
  note k4 = chamar_ok [OF k3 m]
  from assms(2) g c e m k1 k2 k3 k4 show ?thesis
    by (auto simp: chamadas_estagio_def split: option.splits sum.splits)
qed

lemma atualizar_estagio_autorizacao_ok:
  assumes "conexoes_ok r" and "atualizar_estagio_autorizacao env st r = (x, r')"
  shows "conexoes_ok r'"
proof -
  obtain y r1 where c: "chamadas_estagio env st r = (y, r1)" by (cases "chamadas_estagio env st r")
  note k = chamadas_estagio_ok [OF assms(1) c]
  from assms(2) c k show ?thesis
    by (cases y) (auto simp: atualizar_estagio_autorizacao_def dest: tratar_erro_proc_ok)
qed

lemma corpo_atualizar_ok:
  assumes "conexoes_ok r" and "corpo_atualizar env repr task g st r = (x, r')"
  shows "conexoes_ok r'"
proof -
  obtain y1 r1 where a: "atualizar_autorizacao_guia env r = (y1, r1)"
    by (cases "atualizar_autorizacao_guia env r")
  note k1 = atualizar_autorizacao_guia_ok [OF assms(1) a]
  have k2: "conexoes_ok r2" if "atualizar_estagio_autorizacao env st rr = (y2, r2)" "conexoes_ok rr"
    for rr y2 r2
    using atualizar_estagio_autorizacao_ok [OF that(2) that(1)] .
  from assms a k1 show ?thesis
    unfolding corpo_atualizar_def
    by (auto split: if_splits sum.splits prod.splits dest: k2)
qed

lemma close_ok:
  assumes "conexoes_ok r0" and "close env r0 = (x, r)"
  shows "(x = None \<longrightarrow> connection r = None \<and> abertas r = []) \<and>
         (\<forall>e. x = Some e \<longrightarrow>
            env (chamadas r0) Close = Some e \<and> connection r0 \<noteq> None \<and>
            r = r0\<lparr>chamadas := Suc (chamadas r0), historico := historico r0 @ [Close]\<rparr>)"
proof (cases "connection r0")
  case None
  with assms show ?thesis by (auto simp: close_def conexoes_ok_def)
next
  case (Some c)
  show ?thesis
  proof (cases "env (chamadas r0) Close")
    case None
    with Some assms show ?thesis by (auto simp: close_def chamar_def conexoes_ok_def)
  next
    case e: (Some e)
    with Some assms show ?thesis by (auto simp: close_def chamar_def)
  qed
qed

lemma finalmente_ok:
  assumes ok: "conexoes_ok r0" and f: "finalmente env (res, r0) = (res', ro)"
  shows "\<exists>r. ro = Some r \<and>
           ((\<forall>k. env k Close = None) \<longrightarrow> connection r = None \<and> abertas r = []) \<and>
           (connection r = None \<and> abertas r = [] \<and> res' = res \<or>
            (\<exists>e. res' = Inl e \<and> env (chamadas r0) Close = Some e \<and> connection r0 \<noteq> None \<and>
                 r = r0\<lparr>chamadas := Suc (chamadas r0), historico := historico r0 @ [Close]\<rparr>))"
proof -
  obtain x r where c: "close env r0 = (x, r)" by (cases "close env r0")
  note k = close_ok [OF ok c]
  show ?thesis
  proof (cases x)
    case None
    with f c k show ?thesis by (auto simp: finalmente_def)
  next
    case (Some e)
    with f c k show ?thesis by (auto simp: finalmente_def)
  qed
qed

lemma handler_finalmente:
  assumes "snd (handle_atualizar_autorizacao env repr int_u task) = Some r"
  shows "\<exists>res r0. conexoes_ok r0 \<and>
           handle_atualizar_autorizacao env repr int_u task = finalmente env (res, r0)"
proof -
  let ?vs = "variables task"
  let ?r0 = "\<lparr>connection = None, chamadas = 0, abertas = [], historico = []\<rparr>"
  have ini: "conexoes_ok ?r0" by (simp add: conexoes_ok_def)
  obtain x r1 where c: "corpo_atualizar env repr task (dict_get ?vs ''nr_guia_requisicao'' PNone)
                           (dict_get ?vs ''status_autorizacao'' PNone) ?r0 = (x, r1)"
    by (cases "corpo_atualizar env repr task (dict_get ?vs ''nr_guia_requisicao'' PNone)
                           (dict_get ?vs ''status_autorizacao'' PNone) ?r0")
  from corpo_atualizar_ok [OF ini c] have ok: "conexoes_ok r1" .
  from assms c have "\<exists>res. handle_atualizar_autorizacao env repr int_u task = finalmente env (res, r1)"
    by (auto simp: handle_atualizar_autorizacao_def Let_def split: if_splits sum.splits)
  with ok show ?thesis by blast
qed

lemma repo_inicial_ok: "conexoes_ok \<lparr>connection = None, chamadas = 0, abertas = [], historico = []\<rparr>"
  by (simp add: conexoes_ok_def)

lemma str_int_2: "str_int 2 = ''2''"
  by (simp add: str_int_def str_nat.simps digit_char_def)

lemma strip_Autorizado: "strip ''Autorizado'' = ''Autorizado''"
  by (simp add: strip_def espacos_def)

lemma estagio_Autorizado: "obter_estagio_por_status (PStr ''Autorizado'') = Inr 2"
  by (simp add: obter_estagio_por_status_def strip_Autorizado STATUS_PARA_ESTAGIO_def)

lemma handler_db_ok:
  "snd (handle_atualizar_autorizacao db_ok repr_exemplo int_exemplo task_oracle) =
     Some \<lparr>connection = None, chamadas = 8, abertas = [],
           historico = [Connect, Cursor, Execute, Commit, Cursor, Execute, Commit, Close]\<rparr>"
  by (simp add: handle_atualizar_autorizacao_def task_oracle_def dict_get_def corpo_atualizar_def
        atualizar_autorizacao_guia_def chamadas_guia_def get_connection_def chamar_def db_ok_def
        atualizar_estagio_autorizacao_def chamadas_estagio_def estagio_Autorizado close_def
        finalmente_def Let_def)

lemma handler_db_interrompido:
  "handle_atualizar_autorizacao db_interrompido repr_exemplo int_exemplo task_oracle =
     (Inl (Exn KeyboardInterrupt []),
      Some \<lparr>connection = None, chamadas = 3, abertas = [],
            historico = [Connect, Cursor, Close]\<rparr>)"
  by (simp add: handle_atualizar_autorizacao_def task_oracle_def dict_get_def corpo_atualizar_def
        atualizar_autorizacao_guia_def chamadas_guia_def get_connection_def chamar_def
        db_interrompido_def tratar_erro_proc_def is_Exception_def close_def finalmente_def Let_def)

lemma handler_db_falha:
  "snd (handle_atualizar_autorizacao db_falha repr_exemplo int_exemplo task_oracle) =
     Some \<lparr>connection = None, chamadas = 8, abertas = [],
           historico = [Connect, Cursor, Execute, Rollback, Cursor, Execute, Commit, Close]\<rparr>"
  by (simp add: handle_atualizar_autorizacao_def task_oracle_def dict_get_def corpo_atualizar_def
        atualizar_autorizacao_guia_def chamadas_guia_def get_connection_def chamar_def db_falha_def
        tratar_erro_proc_def desfazer_def is_Exception_def
        atualizar_estagio_autorizacao_def chamadas_estagio_def estagio_Autorizado close_def
        finalmente_def Let_def)

lemma handler_db_close_falha:
  "handle_atualizar_autorizacao db_close_falha repr_exemplo int_exemplo task_oracle =
     (Inl (Exn DatabaseError ''DPY-1001''),
      Some \<lparr>connection = Some 0, chamadas = 8, abertas = [0],
            historico = [Connect, Cursor, Execute, Commit, Cursor, Execute, Commit, Close]\<rparr>)"
  by (simp add: handle_atualizar_autorizacao_def task_oracle_def dict_get_def corpo_atualizar_def
        atualizar_autorizacao_guia_def chamadas_guia_def get_connection_def chamar_def
        db_close_falha_def atualizar_estagio_autorizacao_def chamadas_estagio_def
        estagio_Autorizado close_def finalmente_def Let_def)

section \<open>The claims\<close>

text \<open>
  Claim C1.  A handler must produce a task result on every path and let no exception
  escape.  \<open>handle_executar_rpa\<close> converts the task variables with \<open>int\<close> before its
  \<open>try\<close>: with the process configured and \<open>convenio_codigo = "abc"\<close> the
  \<open>ValueError\<close> of the conversion leaves the handler and no result is produced,
  whatever the remote system would have answered.
\<close>

theorem handle_executar_rpa_excecao_escapa:
  "handle_executar_rpa cfg_exemplo env task_abc =
     Some (Inl (Exn ValueError (''invalid literal for int() with base 10: '' @ quoted ''abc'')))"
  by (simp add: handle_executar_rpa_def cfg_exemplo_def task_abc_def montar_payload_def
        dict_get_def int_ou_zero_def ascii_def parse_int_abc invalid_literal_def simples_def)

text \<open>
  Claim C2, as stated, at a concrete input: \<open>AUTORIZADO\<close> and \<open>autorizado\<close> differ in
  letter case only, and \<open>obter_estagio_por_status\<close> maps the first to stage 2 and the
  second to the default stage 6.
\<close>

theorem estagio_distingue_caixa_counterexample:
  "mesmas_letras ''AUTORIZADO'' ''autorizado'' \<and>
   obter_estagio_por_status (PStr ''AUTORIZADO'') = Inr 2 \<and>
   obter_estagio_por_status (PStr ''autorizado'') = Inr 6"
  by (simp add: mesmas_letras_autorizado obter_estagio_por_status_def strip_AUTORIZADO
        strip_autorizado STATUS_PARA_ESTAGIO_def)

text \<open>
  Claim C2, amended.  A step of the poller whose response carries a string as status
  upper-cases it: it returns the status of a finished run exactly on \<open>DONE\<close> and
  \<open>COMPLETED\<close>, that of a failed run exactly on \<open>FAILED\<close>, \<open>CANCELED\<close> and
  \<open>ERROR\<close>, and goes on polling on every other string (the poll interval not being
  negative); two responses whose statuses differ in the case of the letters \<open>a\<close> to
  \<open>z\<close> only lead to the same of these.  The stage mapping of the Oracle worker strips
  white space and then matches exactly: the twelve spellings of its table give the
  documented stages 2, 6, 29 and 7, and every other string gives the default stage 6.
\<close>

theorem mapeamento_de_status:
  assumes rs: "consultar env (polls s) = Inr (PDict d)"
      and st: "dict_get d ''status'' (PStr []) = PStr st"
      and i0: "0 \<le> poll_interval_seconds cfg"
  shows "(upper st \<in> {''DONE'', ''COMPLETED''} \<longleftrightarrow>
            estado_do_passo (fst (tentativa cfg env s)) = Some Succeeded) \<and>
         (upper st \<in> {''FAILED'', ''CANCELED'', ''ERROR''} \<longleftrightarrow>
            estado_do_passo (fst (tentativa cfg env s)) = Some Failed) \<and>
         (upper st \<notin> {''DONE'', ''COMPLETED'', ''FAILED'', ''CANCELED'', ''ERROR''} \<longleftrightarrow>
            estado_do_passo (fst (tentativa cfg env s)) = Some Running) \<and>
         (\<forall>env' d' st'.
            consultar env' (polls s) = Inr (PDict d') \<longrightarrow>
            dict_get d' ''status'' (PStr []) = PStr st' \<longrightarrow> mesmas_letras st st' \<longrightarrow>
              estado_do_passo (fst (tentativa cfg env' s)) =
              estado_do_passo (fst (tentativa cfg env s))) \<and>
         (strip a \<in> {''Autorizado'', ''AUTORIZADO'', ''Aprovado'', ''APROVADO''} \<longrightarrow>
            obter_estagio_por_status (PStr a) = Inr 2) \<and>
         (strip a \<in> {''Analise'', ''ANALISE''} \<longrightarrow> obter_estagio_por_status (PStr a) = Inr 6) \<and>
         (strip a \<in> {''Auditoria'', ''AUDITORIA''} \<longrightarrow> obter_estagio_por_status (PStr a) = Inr 29) \<and>
         (strip a \<in> {''Negado'', ''NEGADO'', ''Recusado'', ''RECUSADO''} \<longrightarrow>
            obter_estagio_por_status (PStr a) = Inr 7) \<and>
         (strip a \<notin> set (map fst STATUS_PARA_ESTAGIO) \<longrightarrow> obter_estagio_por_status (PStr a) = Inr 6)"
proof -
  note e = tentativa_estado [OF rs st i0]
  have 1: "upper st \<in> {''DONE'', ''COMPLETED''} \<longleftrightarrow>
            estado_do_passo (fst (tentativa cfg env s)) = Some Succeeded"
    unfolding e by auto
  have 2: "upper st \<in> {''FAILED'', ''CANCELED'', ''ERROR''} \<longleftrightarrow>
            estado_do_passo (fst (tentativa cfg env s)) = Some Failed"
    unfolding e by auto
  have 3: "upper st \<notin> {''DONE'', ''COMPLETED'', ''FAILED'', ''CANCELED'', ''ERROR''} \<longleftrightarrow>
            estado_do_passo (fst (tentativa cfg env s)) = Some Running"
    unfolding e by auto
  have 4: "estado_do_passo (fst (tentativa cfg env' s)) = estado_do_passo (fst (tentativa cfg env s))"
    if rs': "consultar env' (polls s) = Inr (PDict d')"
      and st': "dict_get d' ''status'' (PStr []) = PStr st'" and m: "mesmas_letras st st'"
    for env' d' st'
    using e tentativa_estado [OF rs' st' i0] mesmas_letras_upper [OF m] by simp
  have ne: "a \<noteq> []" if "strip a \<noteq> []"
    using that strip_Nil by auto
  have 5: "obter_estagio_por_status (PStr a) = Inr 2"
    if "strip a \<in> {''Autorizado'', ''AUTORIZADO'', ''Aprovado'', ''APROVADO''}"
    using that ne by (auto simp: obter_estagio_por_status_def STATUS_PARA_ESTAGIO_def)
  have 6: "obter_estagio_por_status (PStr a) = Inr 6" if "strip a \<in> {''Analise'', ''ANALISE''}"
    using that ne by (auto simp: obter_estagio_por_status_def STATUS_PARA_ESTAGIO_def)
  have 7: "obter_estagio_por_status (PStr a) = Inr 29" if "strip a \<in> {''Auditoria'', ''AUDITORIA''}"
    using that ne by (auto simp: obter_estagio_por_status_def STATUS_PARA_ESTAGIO_def)
  have 8: "obter_estagio_por_status (PStr a) = Inr 7"
    if "strip a \<in> {''Negado'', ''NEGADO'', ''Recusado'', ''RECUSADO''}"
    using that ne by (auto simp: obter_estagio_por_status_def STATUS_PARA_ESTAGIO_def)
  have 9: "obter_estagio_por_status (PStr a) = Inr 6"
    if "strip a \<notin> set (map fst STATUS_PARA_ESTAGIO)"
  proof -
    from that have "map_of STATUS_PARA_ESTAGIO (strip a) = None"
      by (simp add: map_of_eq_None_iff)
    then show ?thesis by (simp add: obter_estagio_por_status_def)
  qed
  from 4 have 4: "\<forall>env' d' st'.
            consultar env' (polls s) = Inr (PDict d') \<longrightarrow>
            dict_get d' ''status'' (PStr []) = PStr st' \<longrightarrow> mesmas_letras st st' \<longrightarrow>
              estado_do_passo (fst (tentativa cfg env' s)) =
              estado_do_passo (fst (tentativa cfg env s))"
    by blast
  from 5 have 5: "strip a \<in> {''Autorizado'', ''AUTORIZADO'', ''Aprovado'', ''APROVADO''} \<longrightarrow>
            obter_estagio_por_status (PStr a) = Inr 2" ..
  from 6 have 6: "strip a \<in> {''Analise'', ''ANALISE''} \<longrightarrow> obter_estagio_por_status (PStr a) = Inr 6" ..
  from 7 have 7: "strip a \<in> {''Auditoria'', ''AUDITORIA''} \<longrightarrow>
            obter_estagio_por_status (PStr a) = Inr 29" ..
  from 8 have 8: "strip a \<in> {''Negado'', ''NEGADO'', ''Recusado'', ''RECUSADO''} \<longrightarrow>
            obter_estagio_por_status (PStr a) = Inr 7" ..
  from 9 have 9: "strip a \<notin> set (map fst STATUS_PARA_ESTAGIO) \<longrightarrow>
            obter_estagio_por_status (PStr a) = Inr 6" ..
  from 1 2 3 4 5 6 7 8 9 show ?thesis by (intro conjI)
qed

text \<open>
  Claim C2, the amended statement at the third poll of a remote system that answers
  \<open>done\<close> there, compared with one that answers \<open>DONE\<close>, and at three statuses of
  the Oracle worker.
\<close>

theorem mapeamento_de_status_witness:
  "consultar env_exemplo (polls estado_apos_dois) = Inr (PDict [(''status'', PStr ''done'')]) \<and>
   dict_get [(''status'', PStr ''done'')] ''status'' (PStr []) = PStr ''done'' \<and>
   0 \<le> poll_interval_seconds cfg_exemplo \<and>
   upper ''done'' \<in> {''DONE'', ''COMPLETED''} \<and>
   estado_do_passo (fst (tentativa cfg_exemplo env_exemplo estado_apos_dois)) = Some Succeeded \<and>
   consultar env_rede (polls estado_apos_dois) = Inr (PDict [(''status'', PStr ''DONE'')]) \<and>
   dict_get [(''status'', PStr ''DONE'')] ''status'' (PStr []) = PStr ''DONE'' \<and>
   mesmas_letras ''done'' ''DONE'' \<and>
   estado_do_passo (fst (tentativa cfg_exemplo env_rede estado_apos_dois)) = Some Succeeded \<and>
   strip ''AUTORIZADO'' \<in> {''Autorizado'', ''AUTORIZADO'', ''Aprovado'', ''APROVADO''} \<and>
   obter_estagio_por_status (PStr ''AUTORIZADO'') = Inr 2 \<and>
   strip '' Negado '' \<in> {''Negado'', ''NEGADO'', ''Recusado'', ''RECUSADO''} \<and>
   obter_estagio_por_status (PStr '' Negado '') = Inr 7 \<and>
   strip ''autorizado'' \<notin> set (map fst STATUS_PARA_ESTAGIO) \<and>
   obter_estagio_por_status (PStr ''autorizado'') = Inr 6"
proof -
  have h1: "consultar env_exemplo (polls estado_apos_dois) = Inr (PDict [(''status'', PStr ''done'')])"
    by (simp add: env_exemplo_def estado_apos_dois_def)
  have h2: "dict_get [(''status'', PStr ''done'')] ''status'' (PStr []) = PStr ''done''"
    by (simp add: dict_get_def)
  have h3: "0 \<le> poll_interval_seconds cfg_exemplo" by (simp add: cfg_exemplo_def)
  have k1: "consultar env_rede (polls estado_apos_dois) = Inr (PDict [(''status'', PStr ''DONE'')])"
    by (simp add: env_rede_def estado_apos_dois_def)
  have k2: "dict_get [(''status'', PStr ''DONE'')] ''status'' (PStr []) = PStr ''DONE''"
    by (simp add: dict_get_def)
  have k3: "mesmas_letras ''done'' ''DONE''"
    by (simp add: mesmas_letras_def mesma_letra_def pares_de_letras_def)
  have a: "upper ''done'' \<in> {''DONE'', ''COMPLETED''}"
    by (simp add: upper_done)
  have b: "strip ''AUTORIZADO'' \<in> {''Autorizado'', ''AUTORIZADO'', ''Aprovado'', ''APROVADO''}"
    by (simp add: strip_AUTORIZADO)
  have c: "strip '' Negado '' \<in> {''Negado'', ''NEGADO'', ''Recusado'', ''RECUSADO''}"
    by (simp add: strip_Negado_espacos)
  have d: "strip ''autorizado'' \<notin> set (map fst STATUS_PARA_ESTAGIO)"
    by (simp add: strip_autorizado STATUS_PARA_ESTAGIO_def)
  note t1 = mapeamento_de_status [OF h1 h2 h3, of "''AUTORIZADO''"]
  note t2 = mapeamento_de_status [OF h1 h2 h3, of "'' Negado ''"]
  note t3 = mapeamento_de_status [OF h1 h2 h3, of "''autorizado''"]
  note e = t1 [THEN conjunct1, THEN iffD1, OF a]
  note f0 = t1 [THEN conjunct2, THEN conjunct2, THEN conjunct2, THEN conjunct1, rule_format,
                OF k1 k2 k3]
  from f0 e have f: "estado_do_passo (fst (tentativa cfg_exemplo env_rede estado_apos_dois))
                       = Some Succeeded" by simp
  note g = t1 [THEN conjunct2, THEN conjunct2, THEN conjunct2, THEN conjunct2, THEN conjunct1,
               THEN mp, OF b]
  note h = t2 [THEN conjunct2, THEN conjunct2, THEN conjunct2, THEN conjunct2, THEN conjunct2,
               THEN conjunct2, THEN conjunct2, THEN conjunct1, THEN mp, OF c]
  note i = t3 [THEN conjunct2, THEN conjunct2, THEN conjunct2, THEN conjunct2, THEN conjunct2,
               THEN conjunct2, THEN conjunct2, THEN conjunct2, THEN mp, OF d]
  show ?thesis
    using h1 h2 h3 a e k1 k2 k3 f b g c h d i by (intro conjI | assumption)+
qed

text \<open>
  Claim C3.  When no poll ever yields a terminal status (each one is a network error or
  a response whose status is a string outside the success and failure lists), the poll
  interval is not negative and every iteration advances the clock by at least some
  \<open>d > 0\<close>, the poller returns \<open>TIMEOUT\<close>; at that moment the elapsed time is at least
  the budget, every status poll was issued before the budget had elapsed, and the last
  thing done is the warning of the timeout, with no poll after it.  Whatever the remote
  system answers, a \<open>TIMEOUT\<close> result is returned only when the elapsed time has
  reached the budget: no status string produces it.
\<close>

theorem poller_expira_sem_status_terminal:
  assumes "\<forall>k. resposta_nao_terminal (consultar env k)"
      and "0 \<le> poll_interval_seconds cfg"
      and "0 < d"
      and "\<forall>k. d \<le> latencia env k + real_of_int (poll_interval_seconds cfg)"
  shows "(\<exists>sf. aguardar_conclusao cfg env s =
                 Some (Inr (''TIMEOUT'', msg_timeout (timeout_seconds cfg), PNone),
                       registrar Warning sf) \<and>
               real_of_int (timeout_seconds cfg) \<le> now sf - now s \<and>
               (\<forall>t. Consulta t \<in> set (trace sf) \<longrightarrow>
                      Consulta t \<in> set (trace s) \<or> t - now s < real_of_int (timeout_seconds cfg))) \<and>
         (\<forall>env' s0 m out s1.
             aguardar_conclusao cfg env' s0 = Some (Inr (''TIMEOUT'', m, out), s1) \<longrightarrow>
               real_of_int (timeout_seconds cfg) \<le> now s1 - now s0)"
proof -
  from aguardar_loop_termina [OF assms, of "now s" "registrar Info s"] obtain sf where
    r: "aguardar_loop cfg env (now s) (registrar Info s) =
          Some (Inr (''TIMEOUT'', msg_timeout (timeout_seconds cfg), PNone), registrar Warning sf)"
    and t: "real_of_int (timeout_seconds cfg) \<le> now sf - now s"
    by blast
  from aguardar_loop_ok [OF r] have
    "\<forall>t. Consulta t \<in> set (trace sf) \<longrightarrow>
          Consulta t \<in> set (trace s) \<or> t - now s < real_of_int (timeout_seconds cfg)"
    by (auto simp: poller_ok_def registrar_def)
  with r t have 1: "\<exists>sf. aguardar_conclusao cfg env s =
                 Some (Inr (''TIMEOUT'', msg_timeout (timeout_seconds cfg), PNone),
                       registrar Warning sf) \<and>
               real_of_int (timeout_seconds cfg) \<le> now sf - now s \<and>
               (\<forall>t. Consulta t \<in> set (trace sf) \<longrightarrow>
                      Consulta t \<in> set (trace s) \<or> t - now s < real_of_int (timeout_seconds cfg))"
    unfolding aguardar_conclusao_def by blast
  have 2: "real_of_int (timeout_seconds cfg) \<le> now s1 - now s0"
    if "aguardar_conclusao cfg env' s0 = Some (Inr (''TIMEOUT'', m, out), s1)" for env' s0 m out s1
    using aguardar_loop_ok [OF that [unfolded aguardar_conclusao_def]]
    by (simp add: poller_ok_def)
  from 1 2 show ?thesis by blast
qed

text \<open>
  Claim C3 at a remote system that answers \<open>RUNNING\<close> for ever, with a budget of 30
  seconds and an interval of 5.
\<close>

theorem poller_expira_sem_status_terminal_witness:
  "(\<forall>k. resposta_nao_terminal (consultar env_running k)) \<and>
   0 \<le> poll_interval_seconds cfg_exemplo \<and> (0 :: real) < 5 \<and>
   (\<forall>k. 5 \<le> latencia env_running k + real_of_int (poll_interval_seconds cfg_exemplo)) \<and>
   (\<exists>sf. aguardar_conclusao cfg_exemplo env_running estado_inicial =
            Some (Inr (''TIMEOUT'', msg_timeout 30, PNone), registrar Warning sf) \<and>
          30 \<le> now sf - now estado_inicial)"
proof -
  have h2: "0 \<le> poll_interval_seconds cfg_exemplo" by (simp add: cfg_exemplo_def)
  have h3: "(0 :: real) < 5" by simp
  have h4: "\<forall>k. 5 \<le> latencia env_running k + real_of_int (poll_interval_seconds cfg_exemplo)"
    by (simp add: env_running_def cfg_exemplo_def)
  have T: "timeout_seconds cfg_exemplo = 30" by (simp add: cfg_exemplo_def)
  from poller_expira_sem_status_terminal [OF env_running_nao_terminal h2 h3 h4, of estado_inicial]
    env_running_nao_terminal h2 h3 h4 T
  show ?thesis by auto
qed

text \<open>
  Claim C4.  A network error on a status poll, before the budget has elapsed and with a
  poll interval that is not negative, is logged and followed by one sleep of the poll
  interval, and the loop goes on with the same start time.  No run of the poller ends
  with a network error, and no run issues a status poll once the time elapsed since
  that one start time has reached the budget.
\<close>

theorem erro_de_rede_nao_aborta:
  assumes i0: "0 \<le> poll_interval_seconds cfg"
      and el: "now s - t0 < real_of_int (timeout_seconds cfg)"
      and er: "consultar env (polls s) = Inl e"
      and rq: "kind e = RequestException"
  shows "aguardar_loop cfg env t0 s =
           aguardar_loop cfg env t0
             (s\<lparr>now := now s + latencia env (polls s) + real_of_int (poll_interval_seconds cfg),
                polls := Suc (polls s),
                trace := trace s @ [Consulta (now s), Log Error,
                                    Dormiu (poll_interval_seconds cfg)]\<rparr>) \<and>
         (\<forall>r s'. aguardar_loop cfg env t0 s = Some (r, s') \<longrightarrow>
            (\<forall>e'. r = Inl e' \<longrightarrow> kind e' \<noteq> RequestException) \<and>
            (\<forall>t. Consulta t \<in> set (trace s') \<longrightarrow>
                   Consulta t \<in> set (trace s) \<or> t - t0 < real_of_int (timeout_seconds cfg)))"
proof -
  from er rq i0 have
    "tentativa cfg env s =
       (Continua,
        s\<lparr>now := now s + latencia env (polls s) + real_of_int (poll_interval_seconds cfg),
          polls := Suc (polls s),
          trace := trace s @ [Consulta (now s), Log Error, Dormiu (poll_interval_seconds cfg)]\<rparr>)"
    by (simp add: tentativa_def consultar_status_instancia_def registrar_def sleep_def Let_def)
  with el have 1: "aguardar_loop cfg env t0 s =
           aguardar_loop cfg env t0
             (s\<lparr>now := now s + latencia env (polls s) + real_of_int (poll_interval_seconds cfg),
                polls := Suc (polls s),
                trace := trace s @ [Consulta (now s), Log Error,
                                    Dormiu (poll_interval_seconds cfg)]\<rparr>)"
    by (intro aguardar_loop_continua) simp_all
  have 2: "(\<forall>e'. r = Inl e' \<longrightarrow> kind e' \<noteq> RequestException) \<and>
           (\<forall>t. Consulta t \<in> set (trace s') \<longrightarrow>
                  Consulta t \<in> set (trace s) \<or> t - t0 < real_of_int (timeout_seconds cfg))"
    if "aguardar_loop cfg env t0 s = Some (r, s')" for r s'
    using aguardar_loop_ok [OF that] by (simp add: poller_ok_def)
  from 1 2 show ?thesis by blast
qed

text \<open>
  Claim C4 at a remote system whose first poll fails on the network and whose second
  one answers \<open>DONE\<close>.
\<close>

theorem erro_de_rede_nao_aborta_witness:
  "0 \<le> poll_interval_seconds cfg_exemplo \<and>
   now estado_inicial - 0 < real_of_int (timeout_seconds cfg_exemplo) \<and>
   consultar env_rede (polls estado_inicial) = Inl (Exn RequestException ''connection reset'') \<and>
   kind (Exn RequestException ''connection reset'') = RequestException \<and>
   aguardar_loop cfg_exemplo env_rede 0
      (estado_inicial\<lparr>now := now estado_inicial + latencia env_rede (polls estado_inicial)
                              + real_of_int (poll_interval_seconds cfg_exemplo),
                       polls := Suc (polls estado_inicial),
                       trace := trace estado_inicial @ [Consulta (now estado_inicial), Log Error,
                                    Dormiu (poll_interval_seconds cfg_exemplo)]\<rparr>) =
     Some (Inr (''SUCESSO'', msg_concluido,
                PDict [(''outputs'', PDict []), (''variables'', PList [])]),
           \<lparr>now = 5, polls = 2,
            trace = [Consulta 0, Log Error, Dormiu 5, Consulta 5, Log Info, Log Info]\<rparr>)"
proof -
  have h1: "0 \<le> poll_interval_seconds cfg_exemplo" by (simp add: cfg_exemplo_def)
  have h2: "now estado_inicial - 0 < real_of_int (timeout_seconds cfg_exemplo)"
    by (simp add: cfg_exemplo_def estado_inicial_def)
  have h3: "consultar env_rede (polls estado_inicial) = Inl (Exn RequestException ''connection reset'')"
    by (simp add: env_rede_def estado_inicial_def)
  have h4: "kind (Exn RequestException ''connection reset'') = RequestException" by simp
  from erro_de_rede_nao_aborta [OF h1 h2 h3 h4] aguardar_env_rede h1 h2 h3 h4
  show ?thesis by simp
qed

text \<open>
  Claim C5, as stated, at a concrete payload: the first alias of the status is present
  with an empty string and the second alias holds \<open>Negado\<close>; the value extracted is
  that of the second alias.
\<close>

theorem primeiro_alias_vazio_counterexample:
  "map_of saidas_status_vazio (hd aliases_status) = Some (PStr []) \<and>
   extrair_saida repr_exemplo (PDict (payload_concluido saidas_status_vazio))
     = Inr \<lparr>numero_autorizacao = PNone, status_autorizacao = PStr ''Negado'',
            nr_guia_requisicao = PNone\<rparr>"
  by (simp add: extrair_saida_def payload_concluido_def saidas_status_vazio_def dict_get_def aliases_guia_def
        aliases_status_def aliases_numero_def py_or_def texto_guia_def)

text \<open>
  Claim C5, amended.  Among the aliases of a field in \<open>outputs\<close>, taken in the order
  of preference, the first one whose value is true (not \<open>None\<close>, empty, zero or
  \<open>False\<close>) gives the result of an extraction that returns, whatever the later aliases
  and the \<open>variables\<close> list hold; for the guide number the result is the text of that
  value.
\<close>

theorem primeiro_alias_verdadeiro_vence:
  assumes "map_of ro ''outputs'' = Some (PDict od)"
      and "extrair_saida repr (PDict ro) = Inr sd"
      and "\<And>x. repr x \<noteq> []"
  shows "(find truthy (map (\<lambda>a. dict_get od a PNone) aliases_status) = Some vs
            \<longrightarrow> status_autorizacao sd = vs) \<and>
         (find truthy (map (\<lambda>a. dict_get od a PNone) aliases_numero) = Some vn
            \<longrightarrow> numero_autorizacao sd = vn) \<and>
         (find truthy (map (\<lambda>a. dict_get od a PNone) aliases_guia) = Some vg
            \<longrightarrow> texto_guia repr vg = Inr (nr_guia_requisicao sd))"
proof -
  from extrair_saida_campos [OF assms(1,2)] obtain guia where
    g: "texto_guia repr (primeiro_valor od aliases_guia) = Inr guia" and
    n: "truthy (primeiro_valor od aliases_numero) \<longrightarrow>
          numero_autorizacao sd = primeiro_valor od aliases_numero" and
    s: "truthy (primeiro_valor od aliases_status) \<longrightarrow>
          status_autorizacao sd = primeiro_valor od aliases_status" and
    k: "truthy guia \<longrightarrow> nr_guia_requisicao sd = guia"
    by blast
  have 1: "status_autorizacao sd = vs"
    if f: "find truthy (map (\<lambda>a. dict_get od a PNone) aliases_status) = Some vs"
    using s primeiro_valor_find [OF f] find_truthy [OF f] by simp
  have 2: "numero_autorizacao sd = vn"
    if f: "find truthy (map (\<lambda>a. dict_get od a PNone) aliases_numero) = Some vn"
    using n primeiro_valor_find [OF f] find_truthy [OF f] by simp
  have 3: "texto_guia repr vg = Inr (nr_guia_requisicao sd)"
    if f: "find truthy (map (\<lambda>a. dict_get od a PNone) aliases_guia) = Some vg"
  proof -
    from primeiro_valor_find [OF f] g have tg: "texto_guia repr vg = Inr guia" by simp
    from texto_guia_truthy [OF find_truthy [OF f] assms(3) tg] k tg show ?thesis by simp
  qed
  from 1 2 3 show ?thesis by blast
qed

text \<open>
  Claim C5, the amended statement at outputs that hold two aliases of the guide number
  and two of the status.
\<close>

theorem primeiro_alias_verdadeiro_vence_witness:
  "map_of (payload_concluido saidas_dois_alias) ''outputs'' = Some (PDict saidas_dois_alias) \<and>
   extrair_saida repr_exemplo (PDict (payload_concluido saidas_dois_alias))
     = Inr \<lparr>numero_autorizacao = PNone, status_autorizacao = PStr ''Negado'',
            nr_guia_requisicao = PStr ''A1''\<rparr> \<and>
   (\<forall>x. repr_exemplo x \<noteq> []) \<and>
   find truthy (map (\<lambda>a. dict_get saidas_dois_alias a PNone) aliases_status) = Some (PStr ''Negado'') \<and>
   find truthy (map (\<lambda>a. dict_get saidas_dois_alias a PNone) aliases_guia) = Some (PStr ''A1'') \<and>
   status_autorizacao \<lparr>numero_autorizacao = PNone, status_autorizacao = PStr ''Negado'',
            nr_guia_requisicao = PStr ''A1''\<rparr> = PStr ''Negado'' \<and>
   texto_guia repr_exemplo (PStr ''A1'') = Inr (PStr ''A1'')"
proof -
  have o: "map_of (payload_concluido saidas_dois_alias) ''outputs'' = Some (PDict saidas_dois_alias)"
    by (simp add: payload_concluido_def)
  have r: "\<And>x. repr_exemplo x \<noteq> []" by (simp add: repr_exemplo_def)
  have f1: "find truthy (map (\<lambda>a. dict_get saidas_dois_alias a PNone) aliases_status) = Some (PStr ''Negado'')"
    by (simp add: saidas_dois_alias_def aliases_status_def dict_get_def)
  have f2: "find truthy (map (\<lambda>a. dict_get saidas_dois_alias a PNone) aliases_guia) = Some (PStr ''A1'')"
    by (simp add: saidas_dois_alias_def aliases_guia_def dict_get_def)
  from primeiro_alias_verdadeiro_vence [OF o extrair_dois_alias r,
         of "PStr ''Negado''" PNone "PStr ''A1''"] f1 f2 o extrair_dois_alias r
  show ?thesis by simp
qed

text \<open>
  Claim C6, as stated, at a concrete payload: the guide number is under
  \<open>nrGuiaRequisicao\<close> only, with the float \<open>0.0\<close>; the extraction yields \<open>None\<close>,
  not the text \<open>0\<close>.
\<close>

theorem guia_float_zero_counterexample:
  "map_of (saidas_guia_float 0) ''nr_guia_requisicao'' = None \<and>
   map_of (saidas_guia_float 0) ''nrGuiaRequisicao'' = Some (PFloat (Fin 0)) \<and>
   extrair_saida repr_exemplo (PDict (payload_concluido (saidas_guia_float 0)))
     = Inr \<lparr>numero_autorizacao = PNone, status_autorizacao = PNone, nr_guia_requisicao = PNone\<rparr>"
  by (simp add: extrair_saida_def payload_concluido_def saidas_guia_float_def dict_get_def aliases_guia_def
        aliases_status_def aliases_numero_def py_or_def texto_guia_def)

text \<open>
  Claim C6, amended.  When \<open>outputs\<close> has no key \<open>nr_guia_requisicao\<close> and holds a
  finite float other than zero under \<open>nrGuiaRequisicao\<close>, and every entry of the
  \<open>variables\<close> list is a dict, the extraction returns, and the guide number it returns
  is the decimal text of the integer part of that float, in which no decimal point
  occurs; what the entries of \<open>variables\<close> hold does not matter.  When some entry of
  \<open>variables\<close> is not a dict, the extraction raises \<open>AttributeError\<close>.
\<close>

theorem guia_float_texto_inteiro:
  assumes o: "map_of ro ''outputs'' = Some (PDict od)"
      and a1: "map_of od ''nr_guia_requisicao'' = None"
      and a2: "map_of od ''nrGuiaRequisicao'' = Some (PFloat (Fin x))"
      and nz: "x \<noteq> 0"
  shows "(variables_sao_dicts ro \<longrightarrow>
            (\<exists>sd. extrair_saida repr (PDict ro) = Inr sd \<and>
                  nr_guia_requisicao sd = PStr (str_int (trunc x)))) \<and>
         (\<not> variables_sao_dicts ro \<longrightarrow>
            (\<exists>e. extrair_saida repr (PDict ro) = Inl e \<and> kind e = AttributeError)) \<and>
         CHR ''.'' \<notin> set (str_int (trunc x))"
proof -
  from a1 a2 nz have pv: "primeiro_valor od aliases_guia = PFloat (Fin x)"
    by (simp add: aliases_guia_def dict_get_def py_or_def)
  then have tg: "texto_guia repr (primeiro_valor od aliases_guia) = Inr (PStr (str_int (trunc x)))"
    by (simp add: texto_guia_def)
  let ?sd0 = "\<lparr>numero_autorizacao = primeiro_valor od aliases_numero,
               status_autorizacao = primeiro_valor od aliases_status,
               nr_guia_requisicao = PStr (str_int (trunc x))\<rparr>"
  have g0: "truthy (nr_guia_requisicao ?sd0)" by (simp add: str_int_nonempty)
  have val: "nr_guia_requisicao sd = PStr (str_int (trunc x))"
    if r: "extrair_saida repr (PDict ro) = Inr sd" for sd
    using extrair_saida_campos [OF o r] tg by (auto simp: str_int_nonempty)
  have 1: "\<exists>sd. extrair_saida repr (PDict ro) = Inr sd \<and>
                nr_guia_requisicao sd = PStr (str_int (trunc x))"
    if wf: "variables_sao_dicts ro"
  proof -
    have "\<exists>sd. extrair_saida repr (PDict ro) = Inr sd"
    proof (cases "dict_get ro ''variables'' (PList [])")
      case (PList vs)
      with wf have "list_all is_dict vs" by (simp add: variables_sao_dicts_def)
      from percorrer_guia_extraida [OF this g0, where repr = repr] obtain sd' where
        "percorrer_variables repr vs ?sd0 = Inr sd'" by blast
      with PList tg show ?thesis
        unfolding extrair_saida_dict [OF o] by simp
    qed (use tg in \<open>simp_all add: extrair_saida_dict [OF o]\<close>)
    with val show ?thesis by blast
  qed
  have 2: "\<exists>e. extrair_saida repr (PDict ro) = Inl e \<and> kind e = AttributeError"
    if nwf: "\<not> variables_sao_dicts ro"
  proof (cases "dict_get ro ''variables'' (PList [])")
    case (PList vs)
    with nwf have "\<not> list_all is_dict vs" by (simp add: variables_sao_dicts_def)
    from percorrer_guia_nao_dict [OF this g0, where repr = repr] obtain e where
      "percorrer_variables repr vs ?sd0 = Inl e" and "kind e = AttributeError" by blast
    with PList tg show ?thesis
      unfolding extrair_saida_dict [OF o] by simp
  qed (use nwf in \<open>simp_all add: variables_sao_dicts_def\<close>)
  from 1 2 str_int_no_point show ?thesis by blast
qed

text \<open>
  Claim C6, the amended statement at \<open>nrGuiaRequisicao = 95687.0\<close>, with a
  \<open>variables\<close> list that holds infinity under the same alias.
\<close>

theorem guia_float_texto_inteiro_witness:
  "map_of campos_guia_float ''outputs'' = Some (PDict (saidas_guia_float 95687)) \<and>
   map_of (saidas_guia_float 95687) ''nr_guia_requisicao'' = None \<and>
   map_of (saidas_guia_float 95687) ''nrGuiaRequisicao'' = Some (PFloat (Fin 95687)) \<and>
   (95687 :: real) \<noteq> 0 \<and>
   variables_sao_dicts campos_guia_float \<and>
   (\<exists>sd. extrair_saida repr_exemplo (PDict campos_guia_float) = Inr sd \<and>
         nr_guia_requisicao sd = PStr ''95687'')"
proof -
  have o: "map_of campos_guia_float ''outputs'' = Some (PDict (saidas_guia_float 95687))"
    by (simp add: campos_guia_float_def saidas_guia_float_def)
  have a1: "map_of (saidas_guia_float 95687) ''nr_guia_requisicao'' = None"
    by (simp add: saidas_guia_float_def)
  have a2: "map_of (saidas_guia_float 95687) ''nrGuiaRequisicao'' = Some (PFloat (Fin 95687))"
    by (simp add: saidas_guia_float_def)
  have nz: "(95687 :: real) \<noteq> 0" by simp
  have wf: "variables_sao_dicts campos_guia_float"
    by (simp add: variables_sao_dicts_def campos_guia_float_def dict_get_def is_dict_def)
  have t: "str_int (trunc 95687) = ''95687''"
    by (simp add: trunc_def str_int_95687)
  from guia_float_texto_inteiro [OF o a1 a2 nz, where repr = repr_exemplo,
         THEN conjunct1, THEN mp, OF wf] t
  have "\<exists>sd. extrair_saida repr_exemplo (PDict campos_guia_float) = Inr sd \<and>
         nr_guia_requisicao sd = PStr ''95687''" by simp
  with o a1 a2 nz wf show ?thesis by (intro conjI)
qed




text \<open>
  Claim C8.  At an iteration that starts before the budget has elapsed, a poll whose
  status is in the success list makes the poller return \<open>SUCESSO\<close> with the outputs and
  variables of that response: exactly one more poll is counted and nothing is slept.
  A status in the failure list makes it return \<open>ERRO\<close> at once with the whole response
  and a message that ends in the text of \<open>errorMessage\<close>, of \<open>error\<close>, or a fixed
  text; a non-empty string under \<open>errorMessage\<close> is taken as it is.
\<close>

theorem status_terminal_retorna_no_mesmo_poll:
  assumes el: "now s - t0 < real_of_int (timeout_seconds cfg)"
      and rs: "consultar env (polls s) = Inr (PDict d)"
      and st: "dict_get d ''status'' (PStr []) = PStr st"
  shows "(classificar (upper st) = Concluido \<longrightarrow>
            aguardar_loop cfg env t0 s =
              Some (Inr (''SUCESSO'', msg_concluido,
                         PDict [(''outputs'', py_or (dict_get d ''outputs'' (PDict []))
                                                   (dict_get d ''output'' (PDict []))),
                                (''variables'', dict_get d ''variables'' (PList []))]),
                    s\<lparr>now := now s + latencia env (polls s), polls := Suc (polls s),
                      trace := trace s @ [Consulta (now s), Log Info, Log Info]\<rparr>)) \<and>
         (classificar (upper st) = Falhou \<longrightarrow>
            aguardar_loop cfg env t0 s =
              Some (Inr (''ERRO'',
                         ''Processo falhou: '' @
                           py_str (repr_of env)
                             (py_or (dict_get d ''errorMessage'' PNone)
                                (py_or (dict_get d ''error'' PNone) (PStr ''Erro desconhecido''))),
                         PDict d),
                    s\<lparr>now := now s + latencia env (polls s), polls := Suc (polls s),
                      trace := trace s @ [Consulta (now s), Log Info]\<rparr>)) \<and>
         (\<forall>m. dict_get d ''errorMessage'' PNone = PStr m \<longrightarrow> m \<noteq> [] \<longrightarrow>
              py_str (repr_of env)
                (py_or (dict_get d ''errorMessage'' PNone)
                   (py_or (dict_get d ''error'' PNone) (PStr ''Erro desconhecido''))) = m)"
proof -
  have 1: "aguardar_loop cfg env t0 s =
              Some (Inr (''SUCESSO'', msg_concluido,
                         PDict [(''outputs'', py_or (dict_get d ''outputs'' (PDict []))
                                                   (dict_get d ''output'' (PDict []))),
                                (''variables'', dict_get d ''variables'' (PList []))]),
                    s\<lparr>now := now s + latencia env (polls s), polls := Suc (polls s),
                      trace := trace s @ [Consulta (now s), Log Info, Log Info]\<rparr>)"
    if c: "classificar (upper st) = Concluido"
    using el rs st c
    by (subst aguardar_loop.simps)
       (simp add: tentativa_def consultar_status_instancia_def registrar_def Let_def)
  have 2: "aguardar_loop cfg env t0 s =
              Some (Inr (''ERRO'',
                         ''Processo falhou: '' @
                           py_str (repr_of env)
                             (py_or (dict_get d ''errorMessage'' PNone)
                                (py_or (dict_get d ''error'' PNone) (PStr ''Erro desconhecido''))),
                         PDict d),
                    s\<lparr>now := now s + latencia env (polls s), polls := Suc (polls s),
                      trace := trace s @ [Consulta (now s), Log Info]\<rparr>)"
    if c: "classificar (upper st) = Falhou"
    using el rs st c
    by (subst aguardar_loop.simps)
       (simp add: tentativa_def consultar_status_instancia_def registrar_def Let_def)
  have 3: "py_str (repr_of env)
                (py_or (dict_get d ''errorMessage'' PNone)
                   (py_or (dict_get d ''error'' PNone) (PStr ''Erro desconhecido''))) = m"
    if "dict_get d ''errorMessage'' PNone = PStr m" and "m \<noteq> []" for m
    using that by (simp add: py_or_def)
  from 1 2 3 show ?thesis by blast
qed

text \<open>
  Claim C8 at the third poll of a remote system that answers \<open>done\<close> there, and at
  the first poll of one that reports a failed run.
\<close>

theorem status_terminal_retorna_no_mesmo_poll_witness:
  "now estado_apos_dois - 0 < real_of_int (timeout_seconds cfg_exemplo) \<and>
   consultar env_exemplo (polls estado_apos_dois) = Inr (PDict [(''status'', PStr ''done'')]) \<and>
   dict_get [(''status'', PStr ''done'')] ''status'' (PStr []) = PStr ''done'' \<and>
   classificar (upper ''done'') = Concluido \<and>
   aguardar_loop cfg_exemplo env_exemplo 0 estado_apos_dois =
     Some (Inr (''SUCESSO'', msg_concluido,
                PDict [(''outputs'', PDict []), (''variables'', PList [])]),
           \<lparr>now = 10, polls = 3, trace = [Consulta 10, Log Info, Log Info]\<rparr>) \<and>
   consultar env_falha (polls estado_inicial) = Inr (PDict resposta_falha) \<and>
   dict_get resposta_falha ''status'' (PStr []) = PStr ''Failed'' \<and>
   classificar (upper ''Failed'') = Falhou \<and>
   aguardar_loop cfg_exemplo env_falha 0 estado_inicial =
     Some (Inr (''ERRO'', ''Processo falhou: robot crashed'', PDict resposta_falha),
           \<lparr>now = 0, polls = 1, trace = [Consulta 0, Log Info]\<rparr>)"
proof -
  have a1: "now estado_apos_dois - 0 < real_of_int (timeout_seconds cfg_exemplo)"
    by (simp add: estado_apos_dois_def cfg_exemplo_def)
  have a2: "consultar env_exemplo (polls estado_apos_dois) = Inr (PDict [(''status'', PStr ''done'')])"
    by (simp add: env_exemplo_def estado_apos_dois_def)
  have a3: "dict_get [(''status'', PStr ''done'')] ''status'' (PStr []) = PStr ''done''"
    by (simp add: dict_get_def)
  have a4: "classificar (upper ''done'') = Concluido"
    by (simp add: upper_done classificar_def)
  have b1: "now estado_inicial - 0 < real_of_int (timeout_seconds cfg_exemplo)"
    by (simp add: estado_inicial_def cfg_exemplo_def)
  have b2: "consultar env_falha (polls estado_inicial) = Inr (PDict resposta_falha)"
    by (simp add: env_falha_def)
  have b3: "dict_get resposta_falha ''status'' (PStr []) = PStr ''Failed''"
    by (simp add: resposta_falha_def dict_get_def)
  have b4: "classificar (upper ''Failed'') = Falhou"
    by (simp add: upper_Failed classificar_def)
  have b5: "dict_get resposta_falha ''errorMessage'' PNone = PStr ''robot crashed''"
    by (simp add: resposta_falha_def dict_get_def)
  from status_terminal_retorna_no_mesmo_poll [OF a1 a2 a3] a4
  have s: "aguardar_loop cfg_exemplo env_exemplo 0 estado_apos_dois =
     Some (Inr (''SUCESSO'', msg_concluido,
                PDict [(''outputs'', PDict []), (''variables'', PList [])]),
           \<lparr>now = 10, polls = 3, trace = [Consulta 10, Log Info, Log Info]\<rparr>)"
    by (simp add: dict_get_def py_or_def estado_apos_dois_def env_exemplo_def)
  from status_terminal_retorna_no_mesmo_poll [OF b1 b2 b3] b4 b5
  have f: "aguardar_loop cfg_exemplo env_falha 0 estado_inicial =
     Some (Inr (''ERRO'', ''Processo falhou: robot crashed'', PDict resposta_falha),
           \<lparr>now = 0, polls = 1, trace = [Consulta 0, Log Info]\<rparr>)"
    by (simp add: estado_inicial_def env_falha_def)
  from a1 a2 a3 a4 s b2 b3 b4 f show ?thesis by blast
qed



text \<open>
  Claim C10, as stated, at a concrete run: every call of the driver succeeds but the
  close of the connection, which raises.  The exception leaves the handler in place of
  its result, the \<open>_connection\<close> field is not reset and the connection stays open.
\<close>

theorem conexao_nao_liberada_counterexample:
  "handle_atualizar_autorizacao db_close_falha repr_exemplo int_exemplo task_oracle =
     (Inl (Exn DatabaseError ''DPY-1001''),
      Some \<lparr>connection = Some 0, chamadas = 8, abertas = [0],
            historico = [Connect, Cursor, Execute, Commit, Cursor, Execute, Commit, Close]\<rparr>)"
  by (rule handler_db_close_falha)

text \<open>
  Claim C10, amended.  Once \<open>handle_atualizar_autorizacao\<close> has constructed its
  repository, it leaves it in one of two ways, whether it returns a result of success,
  a result of error, or is left by an exception.  Either the \<open>_connection\<close> field is
  reset and no connection is open; this is so whenever the close of the driver does not
  raise.  Or the last call made to the driver is the close of the connection, that call
  raised, its exception leaves the handler, and the field still holds the connection.
\<close>

theorem conexao_liberada_se_close_nao_levanta:
  assumes "snd (handle_atualizar_autorizacao env repr int_u task) = Some r"
  shows "((\<forall>k. env k Close = None) \<longrightarrow> connection r = None \<and> abertas r = []) \<and>
         (connection r = None \<and> abertas r = [] \<or>
          (\<exists>e. fst (handle_atualizar_autorizacao env repr int_u task) = Inl e \<and>
               0 < chamadas r \<and> env (chamadas r - 1) Close = Some e \<and>
               historico r \<noteq> [] \<and> last (historico r) = Close \<and>
               connection r \<noteq> None))"
proof -
  from handler_finalmente [OF assms] obtain res r0 where ok: "conexoes_ok r0"
    and h: "handle_atualizar_autorizacao env repr int_u task = finalmente env (res, r0)"
    by blast
  obtain res' ro where f: "finalmente env (res, r0) = (res', ro)"
    by (cases "finalmente env (res, r0)")
  from assms h f have ro: "ro = Some r" by simp
  from finalmente_ok [OF ok f] ro have
    a: "(\<forall>k. env k Close = None) \<longrightarrow> connection r = None \<and> abertas r = []" and
    b: "connection r = None \<and> abertas r = [] \<and> res' = res \<or>
        (\<exists>e. res' = Inl e \<and> env (chamadas r0) Close = Some e \<and> connection r0 \<noteq> None \<and>
             r = r0\<lparr>chamadas := Suc (chamadas r0), historico := historico r0 @ [Close]\<rparr>)"
    by simp_all
  from b have "connection r = None \<and> abertas r = [] \<or>
          (\<exists>e. fst (handle_atualizar_autorizacao env repr int_u task) = Inl e \<and>
               0 < chamadas r \<and> env (chamadas r - 1) Close = Some e \<and>
               historico r \<noteq> [] \<and> last (historico r) = Close \<and>
               connection r \<noteq> None)"
  proof
    assume "connection r = None \<and> abertas r = [] \<and> res' = res"
    then show ?thesis by simp
  next
    assume "\<exists>e. res' = Inl e \<and> env (chamadas r0) Close = Some e \<and> connection r0 \<noteq> None \<and>
             r = r0\<lparr>chamadas := Suc (chamadas r0), historico := historico r0 @ [Close]\<rparr>"
    then obtain e where "res' = Inl e" and "env (chamadas r0) Close = Some e"
      and "connection r0 \<noteq> None"
      and "r = r0\<lparr>chamadas := Suc (chamadas r0), historico := historico r0 @ [Close]\<rparr>"
      by blast
    with h f have "fst (handle_atualizar_autorizacao env repr int_u task) = Inl e \<and>
               0 < chamadas r \<and> env (chamadas r - 1) Close = Some e \<and>
               historico r \<noteq> [] \<and> last (historico r) = Close \<and>
               connection r \<noteq> None"
      by simp
    then show ?thesis by blast
  qed
  with a show ?thesis by blast
qed

text \<open>
  Claim C10, the amended statement at three runs: every call of the driver succeeds;
  the second call is interrupted and the exception leaves the handler; the close raises.
\<close>

theorem conexao_liberada_se_close_nao_levanta_witness:
  "snd (handle_atualizar_autorizacao db_ok repr_exemplo int_exemplo task_oracle) =
     Some \<lparr>connection = None, chamadas = 8, abertas = [],
           historico = [Connect, Cursor, Execute, Commit, Cursor, Execute, Commit, Close]\<rparr> \<and>
   (\<forall>k. db_ok k Close = None) \<and>
   connection \<lparr>connection = None, chamadas = 8, abertas = [],
           historico = [Connect, Cursor, Execute, Commit, Cursor, Execute, Commit, Close]\<rparr> = None \<and>
   handle_atualizar_autorizacao db_interrompido repr_exemplo int_exemplo task_oracle =
     (Inl (Exn KeyboardInterrupt []),
      Some \<lparr>connection = None, chamadas = 3, abertas = [],
            historico = [Connect, Cursor, Close]\<rparr>) \<and>
   snd (handle_atualizar_autorizacao db_close_falha repr_exemplo int_exemplo task_oracle) =
     Some \<lparr>connection = Some 0, chamadas = 8, abertas = [0],
           historico = [Connect, Cursor, Execute, Commit, Cursor, Execute, Commit, Close]\<rparr> \<and>
   (\<exists>e. fst (handle_atualizar_autorizacao db_close_falha repr_exemplo int_exemplo task_oracle) = Inl e \<and>
        db_close_falha 7 Close = Some e)"
proof -
  have k1: "\<forall>k. db_ok k Close = None" by (simp add: db_ok_def)
  have s3: "snd (handle_atualizar_autorizacao db_close_falha repr_exemplo int_exemplo task_oracle) =
     Some \<lparr>connection = Some 0, chamadas = 8, abertas = [0],
           historico = [Connect, Cursor, Execute, Commit, Cursor, Execute, Commit, Close]\<rparr>"
    by (simp add: handler_db_close_falha)
  note t1 = conexao_liberada_se_close_nao_levanta [OF handler_db_ok, THEN conjunct1, THEN mp, OF k1]
  note t3 = conexao_liberada_se_close_nao_levanta [OF s3, THEN conjunct2]
  from t1 have c1: "connection \<lparr>connection = None, chamadas = 8, abertas = [],
           historico = [Connect, Cursor, Execute, Commit, Cursor, Execute, Commit, Close]\<rparr> = None"
    by simp
  from t3 have c3: "\<exists>e. fst (handle_atualizar_autorizacao db_close_falha repr_exemplo int_exemplo task_oracle) = Inl e \<and>
        db_close_falha 7 Close = Some e"
    by simp
  from handler_db_ok k1 c1 handler_db_interrompido s3 c3 show ?thesis by (intro conjI)
qed

end
